theory Spec2Isabelle
  imports Complex_Main
begin

section \<open>Python values, exceptions and floats\<close>

text \<open>
  The development embeds \<^verbatim>\<open>src/utils/dataset.py\<close>. A Python exception is a value of
  \<open>error\<close>, named as the interpreter or the library names it; a function that can raise
  returns \<open>error + 'a\<close> with \<open>Inl\<close> for the exception. Python names that start with an
  underscore lose it (\<^verbatim>\<open>_read_image_2d\<close> is \<open>read_image_2d\<close>), a method is prefixed with its
  class.
\<close>

datatype error =
    AssertionError string
  | KeyError string
  | IndexError
  | ValueError string
  | TypeError string
  | OverflowError
  | RuntimeError string
  | FileNotFoundError string
  | IsADirectoryError string
  | NotADirectoryError string
  | InvalidDicomError
  | ImageFileError
  | UnpicklingError
  | EOFError
  | AttributeError string

text \<open>
  A float is a rational or one of the three special values. A result of subtraction or
  division whose magnitude reaches the overflow threshold of its format becomes an
  infinity: \<open>2 ^ 128 - 2 ^ 103\<close> for the 32-bit floats of torch's \<^verbatim>\<open>FloatTensor\<close>,
  \<open>2 ^ 1024 - 2 ^ 970\<close> for the 64-bit floats of NumPy. Rounding below the threshold is
  not modelled, and signed zeros are identified.
\<close>

datatype fl = Fin rat | PInf | NInf | NaN

definition float32_limit :: rat where
  "float32_limit = 2 ^ 128 - 2 ^ 103"

definition float64_limit :: rat where
  "float64_limit = 2 ^ 1024 - 2 ^ 970"

definition fl_of_rat :: "rat \<Rightarrow> rat \<Rightarrow> fl" where
  "fl_of_rat limit r = (if limit \<le> r then PInf else if r \<le> - limit then NInf else Fin r)"

fun fl_less :: "fl \<Rightarrow> fl \<Rightarrow> bool" where
  "fl_less NaN _ = False"
| "fl_less _ NaN = False"
| "fl_less (Fin a) (Fin b) = (a < b)"
| "fl_less (Fin _) PInf = True"
| "fl_less (Fin _) NInf = False"
| "fl_less PInf _ = False"
| "fl_less NInf (Fin _) = True"
| "fl_less NInf PInf = True"
| "fl_less NInf NInf = False"

fun fl_sub :: "rat \<Rightarrow> fl \<Rightarrow> fl \<Rightarrow> fl" where
  "fl_sub limit NaN _ = NaN"
| "fl_sub limit _ NaN = NaN"
| "fl_sub limit (Fin a) (Fin b) = fl_of_rat limit (a - b)"
| "fl_sub limit (Fin _) PInf = NInf"
| "fl_sub limit (Fin _) NInf = PInf"
| "fl_sub limit PInf PInf = NaN"
| "fl_sub limit PInf _ = PInf"
| "fl_sub limit NInf NInf = NaN"
| "fl_sub limit NInf _ = NInf"

fun fl_div :: "rat \<Rightarrow> fl \<Rightarrow> fl \<Rightarrow> fl" where
  "fl_div limit NaN _ = NaN"
| "fl_div limit _ NaN = NaN"
| "fl_div limit (Fin a) (Fin b) =
     (if b \<noteq> 0 then fl_of_rat limit (a / b)
      else if a = 0 then NaN else if 0 < a then PInf else NInf)"
| "fl_div limit (Fin _) PInf = Fin 0"
| "fl_div limit (Fin _) NInf = Fin 0"
| "fl_div limit PInf (Fin b) = (if b < 0 then NInf else PInf)"
| "fl_div limit NInf (Fin b) = (if b < 0 then PInf else NInf)"
| "fl_div limit PInf _ = NaN"
| "fl_div limit NInf _ = NaN"

text \<open>\<^verbatim>\<open>torch.max\<close> and \<^verbatim>\<open>torch.min\<close> propagate NaN.\<close>

fun fl_max :: "fl \<Rightarrow> fl \<Rightarrow> fl" where
  "fl_max NaN _ = NaN"
| "fl_max _ NaN = NaN"
| "fl_max a b = (if fl_less a b then b else a)"

fun fl_min :: "fl \<Rightarrow> fl \<Rightarrow> fl" where
  "fl_min NaN _ = NaN"
| "fl_min _ NaN = NaN"
| "fl_min a b = (if fl_less b a then b else a)"

text \<open>Python's \<^verbatim>\<open>int(x)\<close> on a float truncates towards zero and raises on the special values.\<close>

fun py_int :: "fl \<Rightarrow> error + int" where
  "py_int (Fin r) = Inr (if 0 \<le> r then \<lfloor>r\<rfloor> else \<lceil>r\<rceil>)"
| "py_int NaN = Inl (ValueError ''cannot convert float NaN to integer'')"
| "py_int _ = Inl OverflowError"

text \<open>Python's \<^verbatim>\<open>xs[i]\<close> on a list: a negative index counts from the end.\<close>

definition py_index :: "'a list \<Rightarrow> int \<Rightarrow> error + 'a" where
  "py_index xs i =
     (if 0 \<le> i \<and> i < int (length xs) then Inr (xs ! nat i)
      else if i < 0 \<and> - int (length xs) \<le> i then Inr (xs ! nat (int (length xs) + i))
      else Inl IndexError)"

text \<open>Running a fallible step over a list, left to right, stopping at the first exception.\<close>

fun traverse :: "('a \<Rightarrow> error + 'b) \<Rightarrow> 'a list \<Rightarrow> error + 'b list" where
  "traverse f [] = Inr []"
| "traverse f (x # xs) =
     (case f x of
        Inl e \<Rightarrow> Inl e
      | Inr y \<Rightarrow> (case traverse f xs of Inl e \<Rightarrow> Inl e | Inr ys \<Rightarrow> Inr (y # ys)))"

section \<open>Tensors\<close>

text \<open>
  A tensor is its shape and its entries by index, \<open>elem t [i, j, k]\<close> for \<^verbatim>\<open>t[i, j, k]\<close>.
  Only the indices within the shape are entries of the tensor.
\<close>

record 'a tensor =
  shape :: "nat list"
  elem :: "nat list \<Rightarrow> 'a"

text \<open>A two-dimensional tensor from its rows.\<close>

definition of_rows :: "'a list list \<Rightarrow> 'a tensor" where
  "of_rows rows =
     \<lparr>shape = [length rows, (case rows of [] \<Rightarrow> 0 | r # _ \<Rightarrow> length r)],
      elem = (\<lambda>idx. rows ! (idx ! 0) ! (idx ! 1))\<rparr>"

fun indices :: "nat list \<Rightarrow> nat list list" where
  "indices [] = [[]]"
| "indices (d # ds) = concat (map (\<lambda>i. map (\<lambda>r. i # r) (indices ds)) [0..<d])"

definition entries :: "'a tensor \<Rightarrow> 'a list" where
  "entries t = map (elem t) (indices (shape t))"

section \<open>Torch operations\<close>

text \<open>
  \<^verbatim>\<open>torch.stack\<close> along a new first dimension: it raises on an empty list and on
  tensors of different shapes.
\<close>

definition torch_stack :: "'a tensor list \<Rightarrow> error + 'a tensor" where
  "torch_stack ts =
     (case ts of
        [] \<Rightarrow> Inl (RuntimeError ''stack expects a non-empty TensorList'')
      | t # rest \<Rightarrow>
          if list_all (\<lambda>u. shape u = shape t) rest
          then Inr \<lparr>shape = length ts # shape t, elem = (\<lambda>idx. elem (ts ! hd idx) (tl idx))\<rparr>
          else Inl (RuntimeError ''stack expects each tensor to be equal size''))"

text \<open>
  \<^verbatim>\<open>torch.cat\<close> along the first dimension. Entry \<open>i\<close> of the result is looked up in the
  tensor whose block holds row \<open>i\<close>. (The legacy rule that skips tensors of shape \<open>[0]\<close>
  is left out: the program concatenates results of \<^verbatim>\<open>torch.stack\<close>, whose first
  dimension is positive.)
\<close>

fun cat_elem :: "'a tensor list \<Rightarrow> nat \<Rightarrow> nat list \<Rightarrow> 'a" where
  "cat_elem [t] i r = elem t (i # r)"
| "cat_elem (t # ts) i r =
     (if i < hd (shape t) then elem t (i # r) else cat_elem ts (i - hd (shape t)) r)"

definition torch_cat :: "'a tensor list \<Rightarrow> error + 'a tensor" where
  "torch_cat ts =
     (case ts of
        [] \<Rightarrow> Inl (RuntimeError ''torch.cat(): expected a non-empty list of Tensors'')
      | t # rest \<Rightarrow>
          if list_ex (\<lambda>u. shape u = []) ts
          then Inl (RuntimeError ''zero-dimensional tensor cannot be concatenated'')
          else if list_all (\<lambda>u. tl (shape u) = tl (shape t)) rest
          then Inr \<lparr>shape = sum_list (map (\<lambda>u. hd (shape u)) ts) # tl (shape t),
                    elem = (\<lambda>idx. cat_elem ts (hd idx) (tl idx))\<rparr>
          else Inl (RuntimeError ''Sizes of tensors must match except in dimension 0''))"

text \<open>
  \<^verbatim>\<open>Tensor.permute\<close>: dimension \<open>k\<close> of the result is dimension \<open>dims ! k\<close> of the
  argument, so the entry at \<open>idx\<close> is the argument's entry at the index whose component
  \<open>dims ! k\<close> is \<open>idx ! k\<close>.
\<close>

definition position :: "nat \<Rightarrow> nat list \<Rightarrow> nat" where
  "position m dims = length (takeWhile (\<lambda>d. d \<noteq> m) dims)"

definition permute :: "'a tensor \<Rightarrow> nat list \<Rightarrow> error + 'a tensor" where
  "permute t dims =
     (if length dims \<noteq> length (shape t) \<or> \<not> distinct dims \<or> \<not> list_all (\<lambda>d. d < length dims) dims
      then Inl (RuntimeError ''permute: the dimensions do not match the tensor'')
      else Inr \<lparr>shape = map (\<lambda>d. shape t ! d) dims,
                elem = (\<lambda>idx. elem t (map (\<lambda>m. idx ! position m dims) [0..<length dims]))\<rparr>)"

text \<open>
  \<^verbatim>\<open>torchvision.transforms.functional.rotate\<close> takes a tensor of shape \<open>[..., H, W]\<close> and
  transforms each of its \<open>H \<times> W\<close> planes by the same map of the plane, keeping the shape
  (\<^verbatim>\<open>expand=False\<close>). The map of one plane for an angle, which interpolates in floating
  point, is the parameter \<open>rot2d\<close>.
\<close>

definition plane :: "'a tensor \<Rightarrow> nat list \<Rightarrow> 'a tensor" where
  "plane t pre = \<lparr>shape = drop (length (shape t) - 2) (shape t), elem = (\<lambda>ij. elem t (pre @ ij))\<rparr>"

definition tv_rotate :: "('a tensor \<Rightarrow> int \<Rightarrow> 'a tensor) \<Rightarrow> 'a tensor \<Rightarrow> int \<Rightarrow> error + 'a tensor" where
  "tv_rotate rot2d img angle =
     (if length (shape img) < 2 then Inl (TypeError ''Tensor is not a torch image.'')
      else Inr \<lparr>shape = shape img,
                elem = (\<lambda>idx. elem (rot2d (plane img (take (length idx - 2) idx)) angle)
                                   (drop (length idx - 2) idx))\<rparr>)"

text \<open>\<^verbatim>\<open>t[:, :, i]\<close> for \<open>i\<close> from a \<^verbatim>\<open>range\<close>, and \<^verbatim>\<open>t.shape[-1]\<close>.\<close>

definition index_dim2 :: "'a tensor \<Rightarrow> nat \<Rightarrow> error + 'a tensor" where
  "index_dim2 t i =
     (if length (shape t) < 3 \<or> shape t ! 2 \<le> i then Inl IndexError
      else Inr \<lparr>shape = take 2 (shape t) @ drop 3 (shape t),
                elem = (\<lambda>idx. elem t (take 2 idx @ [i] @ drop 2 idx))\<rparr>)"

definition shape_last :: "'a tensor \<Rightarrow> error + nat" where
  "shape_last t = (if shape t = [] then Inl IndexError else Inr (last (shape t)))"

text \<open>\<^verbatim>\<open>Tensor.max()\<close> and \<^verbatim>\<open>Tensor.min()\<close> over all entries; they raise on a tensor without entries.\<close>

definition tensor_max :: "fl tensor \<Rightarrow> error + fl" where
  "tensor_max t =
     (case entries t of
        [] \<Rightarrow> Inl (RuntimeError ''max(): Expected reduction dim to be specified for input.numel() == 0'')
      | x # xs \<Rightarrow> Inr (foldl fl_max x xs))"

definition tensor_min :: "fl tensor \<Rightarrow> error + fl" where
  "tensor_min t =
     (case entries t of
        [] \<Rightarrow> Inl (RuntimeError ''min(): Expected reduction dim to be specified for input.numel() == 0'')
      | x # xs \<Rightarrow> Inr (foldl fl_min x xs))"

text \<open>\<^verbatim>\<open>Tensor.unsqueeze(0)\<close> and \<^verbatim>\<open>Tensor.squeeze()\<close>, which drops every dimension of size 1.\<close>

definition unsqueeze0 :: "'a tensor \<Rightarrow> 'a tensor" where
  "unsqueeze0 t = \<lparr>shape = 1 # shape t, elem = (\<lambda>idx. elem t (tl idx))\<rparr>"

fun unsqueeze_index :: "nat list \<Rightarrow> nat list \<Rightarrow> nat list" where
  "unsqueeze_index [] idx = []"
| "unsqueeze_index (d # ds) idx =
     (if d = 1 then 0 # unsqueeze_index ds idx
      else (case idx of [] \<Rightarrow> 0 # unsqueeze_index ds [] | i # r \<Rightarrow> i # unsqueeze_index ds r))"

definition squeeze :: "'a tensor \<Rightarrow> 'a tensor" where
  "squeeze t = \<lparr>shape = filter (\<lambda>d. d \<noteq> 1) (shape t),
                elem = (\<lambda>idx. elem t (unsqueeze_index (shape t) idx))\<rparr>"

section \<open>The file system\<close>

text \<open>
  DICOM values: pydicom gives the value of a decimal-string element as a float, or as a
  \<^verbatim>\<open>MultiValue\<close> of floats when the element holds several.
\<close>

datatype dicom_value = MultiValue "fl list" | SingleValue fl

record dicom_dataset =
  elements :: "(string \<times> string) \<rightharpoonup> dicom_value"
  pixel_data :: "fl tensor option"

text \<open>What \<^verbatim>\<open>pickle\<close> stores for this program: a list of file names or a two-dimensional array.\<close>

datatype pyobj = StrList "string list" | Array2 "fl list list"

text \<open>
  A file holds a DICOM data set, a NIfTI volume, the rows of a CSV table (at least one), a
  pickled object, nothing at all, or bytes that are none of these. A path names a file, a directory with the names
  \<^verbatim>\<open>os.listdir\<close> returns for it (in that order), or nothing. Paths are POSIX paths,
  compared as strings.
\<close>

datatype content =
    Dicom dicom_dataset
  | Nifti "fl tensor"
  | Csv "string list list"
  | Pickle pyobj
  | Empty
  | Raw

datatype node = File content | Dir "string list"

type_synonym filesystem = "string \<rightharpoonup> node"

definition os_path_join :: "string \<Rightarrow> string \<Rightarrow> string" where
  "os_path_join a b =
     (if b \<noteq> [] \<and> hd b = CHR ''/'' then b
      else if a = [] \<or> last a = CHR ''/'' then a @ b
      else a @ ''/'' @ b)"

definition os_path_isfile :: "filesystem \<Rightarrow> string \<Rightarrow> bool" where
  "os_path_isfile fs p = (case fs p of Some (File _) \<Rightarrow> True | _ \<Rightarrow> False)"

definition os_listdir :: "filesystem \<Rightarrow> string \<Rightarrow> error + string list" where
  "os_listdir fs p =
     (case fs p of
        Some (Dir names) \<Rightarrow> Inr names
      | Some (File _) \<Rightarrow> Inl (NotADirectoryError p)
      | None \<Rightarrow> Inl (FileNotFoundError p))"

definition open_read :: "filesystem \<Rightarrow> string \<Rightarrow> error + content" where
  "open_read fs p =
     (case fs p of
        Some (File c) \<Rightarrow> Inr c
      | Some (Dir _) \<Rightarrow> Inl (IsADirectoryError p)
      | None \<Rightarrow> Inl (FileNotFoundError p))"

definition pydicom_read_file :: "filesystem \<Rightarrow> string \<Rightarrow> error + dicom_dataset" where
  "pydicom_read_file fs p =
     (case open_read fs p of
        Inl e \<Rightarrow> Inl e
      | Inr (Dicom d) \<Rightarrow> Inr d
      | Inr _ \<Rightarrow> Inl InvalidDicomError)"

definition nibabel_load :: "filesystem \<Rightarrow> string \<Rightarrow> error + fl tensor" where
  "nibabel_load fs p =
     (case open_read fs p of
        Inl e \<Rightarrow> Inl e
      | Inr (Nifti v) \<Rightarrow> Inr v
      | Inr _ \<Rightarrow> Inl ImageFileError)"

section \<open>Reading a DICOM slice\<close>

text \<open>
  \<^verbatim>\<open>_get_first_of_dicom_field_as_int\<close>, lines 216 to 222. \<^verbatim>\<open>data[0]\<close> on an empty
  \<^verbatim>\<open>MultiValue\<close> raises.
\<close>

fun get_first_of_dicom_field_as_int :: "dicom_value \<Rightarrow> error + int" where
  "get_first_of_dicom_field_as_int (MultiValue []) = Inl IndexError"
| "get_first_of_dicom_field_as_int (MultiValue (x # xs)) = py_int x"
| "get_first_of_dicom_field_as_int (SingleValue x) = py_int x"

text \<open>\<^verbatim>\<open>Dataset.pixel_array\<close> raises when the data set holds no pixel data.\<close>

definition pixel_array :: "dicom_dataset \<Rightarrow> error + fl tensor" where
  "pixel_array d =
     (case pixel_data d of
        None \<Rightarrow> Inl (AttributeError ''The dataset has no pixel data'')
      | Some px \<Rightarrow> Inr px)"

definition dataset_getitem :: "dicom_dataset \<Rightarrow> string \<times> string \<Rightarrow> error + dicom_value" where
  "dataset_getitem d tag =
     (case elements d tag of
        None \<Rightarrow> Inl (KeyError (fst tag @ '','' @ snd tag))
      | Some v \<Rightarrow> Inr v)"

text \<open>
  \<^verbatim>\<open>_get_windowing\<close>, lines 225 to 231: the four values are looked up first, in the order
  centre, width, intercept, slope, and converted afterwards.
\<close>

definition get_windowing :: "dicom_dataset \<Rightarrow> error + int list" where
  "get_windowing d =
     (case traverse (dataset_getitem d)
             [(''0028'', ''1050''), (''0028'', ''1051''), (''0028'', ''1052''), (''0028'', ''1053'')] of
        Inl e \<Rightarrow> Inl e
      | Inr dicom_fields \<Rightarrow> traverse get_first_of_dicom_field_as_int dicom_fields)"

text \<open>\<^verbatim>\<open>_read_image_2d\<close>, lines 234 to 241. The path is \<open>None\<close> for Python's \<^verbatim>\<open>None\<close>.\<close>

definition read_image_2d :: "filesystem \<Rightarrow> string option \<Rightarrow> error + (fl tensor \<times> int list)" where
  "read_image_2d fs file_path =
     (case file_path of
        None \<Rightarrow> Inl (AssertionError ''file path is needed'')
      | Some p \<Rightarrow>
          if \<not> os_path_isfile fs p then Inl (AssertionError ''wrong file path'')
          else
            (case pydicom_read_file fs p of
               Inl e \<Rightarrow> Inl e
             | Inr dcm \<Rightarrow>
                 (case get_windowing dcm of
                    Inl e \<Rightarrow> Inl e
                  | Inr window_params \<Rightarrow>
                      (case pixel_array dcm of
                         Inl e \<Rightarrow> Inl e
                       | Inr pixels \<Rightarrow> Inr (pixels, window_params)))))"

section \<open>Reading a NIfTI volume\<close>

text \<open>
  \<^verbatim>\<open>_read_image_3d\<close>, lines 206 to 213:
  \<^verbatim>\<open>rotate(image.permute(2, 0, 1), 90).permute(1, 2, 0)\<close> when \<^verbatim>\<open>do_rotate\<close> is set.
\<close>

definition read_image_3d ::
  "(fl tensor \<Rightarrow> int \<Rightarrow> fl tensor) \<Rightarrow> filesystem \<Rightarrow> string option \<Rightarrow> bool \<Rightarrow> error + fl tensor" where
  "read_image_3d rot2d fs file_path do_rotate =
     (case file_path of
        None \<Rightarrow> Inl (AssertionError ''file path is needed'')
      | Some p \<Rightarrow>
          if \<not> os_path_isfile fs p then Inl (AssertionError ''wrong file path'')
          else
            (case nibabel_load fs p of
               Inl e \<Rightarrow> Inl e
             | Inr vol \<Rightarrow>
                 if do_rotate then
                   (case permute vol [2, 0, 1] of
                      Inl e \<Rightarrow> Inl e
                    | Inr a \<Rightarrow>
                        (case tv_rotate rot2d a 90 of
                           Inl e \<Rightarrow> Inl e
                         | Inr b \<Rightarrow> permute b [1, 2, 0]))
                 else Inr vol))"

section \<open>Windows of an image\<close>

text \<open>
  \<^verbatim>\<open>_get_image_windows\<close>, lines 198 to 203. \<^verbatim>\<open>window_image\<close> comes from the module
  \<^verbatim>\<open>preprocessing\<close>, which is not among the sources: it is the parameter \<open>window_image\<close>,
  a function of the image, the window, the intercept and the slope that returns a tensor
  or raises.
\<close>

type_synonym windowing = "fl tensor \<Rightarrow> int \<times> int \<Rightarrow> int \<Rightarrow> int \<Rightarrow> error + fl tensor"

definition get_image_windows ::
  "windowing \<Rightarrow> fl tensor \<Rightarrow> (int \<times> int) list \<Rightarrow> int \<Rightarrow> int \<Rightarrow> error + fl tensor" where
  "get_image_windows window_image img windows intercept slope =
     (case traverse (\<lambda>window. window_image img window intercept slope) windows of
        Inl e \<Rightarrow> Inl e
      | Inr window_images \<Rightarrow> torch_stack window_images)"

text \<open>
  Modelled from the spec: \<^verbatim>\<open>preprocessing.window_image\<close> is not among the sources. The
  spec's \<^verbatim>\<open>apply_window\<close> rescales by slope and intercept, clips to the window
  \<open>[center - width/2, center + width/2]\<close> and maps it linearly onto \<open>[0, 1]\<close>. It stands in
  for the parameter where a concrete windowing is needed.
\<close>

definition apply_window :: windowing where
  "apply_window img window intercept slope =
     (let low = of_int (fst window) - of_int (snd window) / 2;
          high = of_int (fst window) + of_int (snd window) / 2
      in Inr (img\<lparr>elem := (\<lambda>idx.
            (case elem img idx of
               Fin r \<Rightarrow> fl_div float32_limit (Fin (max low (min high (r * of_int slope + of_int intercept)) - low))
                               (Fin (high - low))
             | x \<Rightarrow> x))\<rparr>))"

section \<open>The RSNA data set\<close>

record rsna_dataset =
  rsna_train_dir :: string
  rsna_filenames :: "string list"
  rsna_labels :: "fl list list"
  rsna_transform :: "(fl tensor \<Rightarrow> error + fl tensor) option"
  rsna_windows :: "(int \<times> int) list option"

text \<open>\<^verbatim>\<open>RSNAICHDataset.__init__\<close>, lines 17 to 25.\<close>

definition RSNAICHDataset_init ::
  "string \<Rightarrow> string list \<Rightarrow> fl list list \<Rightarrow> (int \<times> int) list option \<Rightarrow>
   (fl tensor \<Rightarrow> error + fl tensor) option \<Rightarrow> rsna_dataset" where
  "RSNAICHDataset_init root_dir filenames labels windows transform =
     \<lparr>rsna_train_dir = os_path_join root_dir ''stage_2_train'',
      rsna_filenames = filenames,
      rsna_labels = labels,
      rsna_transform = transform,
      rsna_windows = windows\<rparr>"

text \<open>
  \<^verbatim>\<open>RSNAICHDataset.__getitem__\<close>, lines 30 to 49, for an integer \<open>item\<close>. The steps run in
  the source's order and the first exception ends the call.
\<close>

definition RSNAICHDataset_getitem ::
  "windowing \<Rightarrow> filesystem \<Rightarrow> rsna_dataset \<Rightarrow> int \<Rightarrow> error + (fl tensor \<times> fl list)" where
  "RSNAICHDataset_getitem window_image fs self item =
     (case py_index (rsna_filenames self) item of
        Inl e \<Rightarrow> Inl e
      | Inr filename \<Rightarrow>
     (case read_image_2d fs (Some (os_path_join (rsna_train_dir self) filename)) of
        Inl e \<Rightarrow> Inl e
      | Inr (img, default_window_params) \<Rightarrow>
     (case default_window_params of
        [window_center, window_width, window_intercept, window_slope] \<Rightarrow>
     (case py_index (rsna_labels self) item of
        Inl e \<Rightarrow> Inl e
      | Inr label \<Rightarrow>
     (case get_image_windows window_image img [(window_center, window_width)]
             window_intercept window_slope of
        Inl e \<Rightarrow> Inl e
      | Inr default_window \<Rightarrow>
     (case (case rsna_windows self of
              Some windows \<Rightarrow>
                (case get_image_windows window_image img windows window_intercept window_slope of
                   Inl e \<Rightarrow> Inl e
                 | Inr caller_windows \<Rightarrow> torch_cat [default_window, caller_windows])
            | None \<Rightarrow> Inr default_window) of
        Inl e \<Rightarrow> Inl e
      | Inr stacked \<Rightarrow>
     (case (case rsna_transform self of Some f \<Rightarrow> f stacked | None \<Rightarrow> Inr stacked) of
        Inl e \<Rightarrow> Inl e
      | Inr result \<Rightarrow> Inr (result, label)))))
      | _ \<Rightarrow> Inl (ValueError ''wrong number of values to unpack''))))"

section \<open>The PhysioNet data set\<close>

record physionet_dataset =
  scans_dir :: string
  masks_dir :: string
  physio_filenames :: "string list"
  slices :: "fl tensor list"
  scans_num_slices :: "nat list"
  masks :: "fl tensor list"
  physio_labels :: "fl list list"
  physio_transform :: "(fl tensor \<Rightarrow> error + fl tensor) option"
  physio_windows :: "(int \<times> int) list option"
  labels_path :: string

text \<open>
  \<^verbatim>\<open>csv.DictReader\<close>: the first row names the columns, empty rows are skipped, a short
  row has \<^verbatim>\<open>None\<close> in its missing columns, and the last of two equal column names wins.
\<close>

definition dict_row :: "string list \<Rightarrow> string list \<Rightarrow> (string \<rightharpoonup> string option)" where
  "dict_row fieldnames row =
     map_of (rev (zip fieldnames (map Some row @ replicate (length fieldnames - length row) None)))"

definition csv_DictReader :: "string list list \<Rightarrow> (string \<rightharpoonup> string option) list" where
  "csv_DictReader rows =
     (case rows of
        [] \<Rightarrow> []
      | fieldnames # rest \<Rightarrow> map (dict_row fieldnames) (filter (\<lambda>r. r \<noteq> []) rest))"

definition open_csv :: "filesystem \<Rightarrow> string \<Rightarrow> error + string list list" where
  "open_csv fs p =
     (case open_read fs p of
        Inl e \<Rightarrow> Inl e
      | Inr (Csv rows) \<Rightarrow> Inr rows
      | Inr Empty \<Rightarrow> Inr []
      | Inr _ \<Rightarrow> Inl (ValueError ''the file is not text''))"

definition PHYSIONET_SUBTYPES :: "string list" where
  "PHYSIONET_SUBTYPES =
     [''Epidural'', ''Intraparenchymal'', ''Intraventricular'', ''Subarachnoid'', ''Subdural'',
      ''No_Hemorrhage'']"

text \<open>
  \<^verbatim>\<open>read_dataset\<close>, lines 72 to 82: one label row per CSV row, the last entry turned into
  "any hemorrhage", in NumPy's 64-bit floats. Python's \<^verbatim>\<open>float\<close> on a string is the
  parameter \<open>py_float\<close>.
\<close>

definition read_label_row :: "(string \<Rightarrow> error + fl) \<Rightarrow> (string \<rightharpoonup> string option) \<Rightarrow> error + fl list" where
  "read_label_row py_float row =
     (case traverse (\<lambda>subtype.
              (case row subtype of
                 None \<Rightarrow> Inl (KeyError subtype)
               | Some None \<Rightarrow> Inl (TypeError ''float() argument must be a string or a real number'')
               | Some (Some cell) \<Rightarrow> py_float cell)) PHYSIONET_SUBTYPES of
        Inl e \<Rightarrow> Inl e
      | Inr label \<Rightarrow> Inr (label[length label - 1 := fl_sub float64_limit (Fin 1) (label ! (length label - 1))]))"

definition read_labels :: "(string \<Rightarrow> error + fl) \<Rightarrow> filesystem \<Rightarrow> string \<Rightarrow> error + fl list list" where
  "read_labels py_float fs path =
     (case open_csv fs path of
        Inl e \<Rightarrow> Inl e
      | Inr rows \<Rightarrow> traverse (read_label_row py_float) (csv_DictReader rows))"

text \<open>
  \<^verbatim>\<open>read_dataset\<close>, lines 87 to 97, for one file: the scan and the mask are both read with
  \<^verbatim>\<open>do_rotate=True\<close>, and slice \<open>i\<close> of each is kept for every \<open>i\<close> below the scan's last
  dimension.
\<close>

definition read_scan_and_mask ::
  "(fl tensor \<Rightarrow> int \<Rightarrow> fl tensor) \<Rightarrow> filesystem \<Rightarrow> string \<Rightarrow> string \<Rightarrow> string \<Rightarrow>
   error + (nat \<times> (fl tensor \<times> fl tensor) list)" where
  "read_scan_and_mask rot2d fs scans masks_d file =
     (case read_image_3d rot2d fs (Some (os_path_join scans file)) True of
        Inl e \<Rightarrow> Inl e
      | Inr scan \<Rightarrow>
     (case read_image_3d rot2d fs (Some (os_path_join masks_d file)) True of
        Inl e \<Rightarrow> Inl e
      | Inr msk \<Rightarrow>
     (case shape_last scan of
        Inl e \<Rightarrow> Inl e
      | Inr num_slices \<Rightarrow>
     (case traverse (\<lambda>i.
              (case index_dim2 scan i of
                 Inl e \<Rightarrow> Inl e
               | Inr s \<Rightarrow> (case index_dim2 msk i of Inl e \<Rightarrow> Inl e | Inr m \<Rightarrow> Inr (s, m))))
             [0..<num_slices] of
        Inl e \<Rightarrow> Inl e
      | Inr pairs \<Rightarrow> Inr (num_slices, pairs)))))"

text \<open>
  \<^verbatim>\<open>PhysioNetICHDataset.__init__\<close> with \<^verbatim>\<open>read_dataset\<close>, lines 53 to 97. An exception
  leaves no data set behind.
\<close>

definition PhysioNetICHDataset_init ::
  "(string \<Rightarrow> error + fl) \<Rightarrow> (fl tensor \<Rightarrow> int \<Rightarrow> fl tensor) \<Rightarrow> filesystem \<Rightarrow> string \<Rightarrow>
   (int \<times> int) list option \<Rightarrow> (fl tensor \<Rightarrow> error + fl tensor) option \<Rightarrow> error + physionet_dataset" where
  "PhysioNetICHDataset_init py_float rot2d fs root_dir windows transform =
     (let scans = os_path_join root_dir ''ct_scans'';
          masks_d = os_path_join root_dir ''masks'';
          lpath = os_path_join root_dir ''hemorrhage_diagnosis_raw_ct.csv''
      in
     (case os_listdir fs scans of
        Inl e \<Rightarrow> Inl e
      | Inr filenames \<Rightarrow>
     (case read_labels py_float fs lpath of
        Inl e \<Rightarrow> Inl e
      | Inr labels \<Rightarrow>
     (case traverse (read_scan_and_mask rot2d fs scans masks_d) filenames of
        Inl e \<Rightarrow> Inl e
      | Inr volumes \<Rightarrow>
          Inr \<lparr>scans_dir = scans,
               masks_dir = masks_d,
               physio_filenames = filenames,
               slices = map fst (concat (map snd volumes)),
               scans_num_slices = map fst volumes,
               masks = map snd (concat (map snd volumes)),
               physio_labels = labels,
               physio_transform = transform,
               physio_windows = windows,
               labels_path = lpath\<rparr>))))"

text \<open>Lines 110 and 111 of \<^verbatim>\<open>PhysioNetICHDataset.__getitem__\<close>: the mask, a 32-bit float tensor, is rescaled under a guard.\<close>

definition rescale_mask :: "fl tensor \<Rightarrow> error + fl tensor" where
  "rescale_mask msk =
     (case tensor_max msk of
        Inl e \<Rightarrow> Inl e
      | Inr mx \<Rightarrow>
          if fl_less (Fin 0) mx then
            (case tensor_min msk of
               Inl e \<Rightarrow> Inl e
             | Inr mn \<Rightarrow>
                 Inr (msk\<lparr>elem := (\<lambda>idx.
                   fl_div float32_limit (fl_sub float32_limit (elem msk idx) mn)
                     (fl_sub float32_limit mx mn))\<rparr>))
          else Inr msk)"

text \<open>\<^verbatim>\<open>PhysioNetICHDataset.__getitem__\<close>, lines 102 to 123, for an integer \<open>item\<close>.\<close>

definition PhysioNetICHDataset_getitem ::
  "windowing \<Rightarrow> physionet_dataset \<Rightarrow> int \<Rightarrow> error + (fl tensor \<times> fl tensor \<times> fl list)" where
  "PhysioNetICHDataset_getitem window_image self item =
     (case py_index (slices self) item of
        Inl e \<Rightarrow> Inl e
      | Inr img \<Rightarrow>
     (case py_index (masks self) item of
        Inl e \<Rightarrow> Inl e
      | Inr msk \<Rightarrow>
     (case py_index (physio_labels self) item of
        Inl e \<Rightarrow> Inl e
      | Inr label \<Rightarrow>
     (case rescale_mask msk of
        Inl e \<Rightarrow> Inl e
      | Inr mask1 \<Rightarrow>
     (case get_image_windows window_image img [(40, 120)] 0 1 of
        Inl e \<Rightarrow> Inl e
      | Inr default_window \<Rightarrow>
     (case (case physio_windows self of
              Some windows \<Rightarrow>
                (case get_image_windows window_image img windows 0 1 of
                   Inl e \<Rightarrow> Inl e
                 | Inr caller_windows \<Rightarrow> torch_cat [default_window, caller_windows])
            | None \<Rightarrow> Inr default_window) of
        Inl e \<Rightarrow> Inl e
      | Inr stacked \<Rightarrow>
     (case physio_transform self of
        None \<Rightarrow> Inr (stacked, mask1, label)
      | Some f \<Rightarrow>
          (case f stacked of
             Inl e \<Rightarrow> Inl e
           | Inr img2 \<Rightarrow>
               (case f (unsqueeze0 mask1) of
                  Inl e \<Rightarrow> Inl e
                | Inr mask2 \<Rightarrow> Inr (img2, squeeze mask2, label))))))))))"

section \<open>The train and validation split\<close>

text \<open>
  The operating-system calls of the split builder are recorded as events, in the order
  they happen.
\<close>

datatype event = Stat string | ListDir string | OpenRead string | OpenWrite string

text \<open>
  \<^verbatim>\<open>os.path.dirname\<close> and \<^verbatim>\<open>os.path.basename\<close>. A file opened for writing is created
  in the directory that holds it, which must exist; the working directory is \<open>''.''\<close>.
\<close>

definition os_path_dirname :: "string \<Rightarrow> string" where
  "os_path_dirname p =
     (let head = rev (dropWhile (\<lambda>c. c \<noteq> CHR ''/'') (rev p))
      in if head \<noteq> [] \<and> \<not> list_all (\<lambda>c. c = CHR ''/'') head
         then rev (dropWhile (\<lambda>c. c = CHR ''/'') (rev head))
         else head)"

definition os_path_basename :: "string \<Rightarrow> string" where
  "os_path_basename p = rev (takeWhile (\<lambda>c. c \<noteq> CHR ''/'') (rev p))"

definition parent_dir :: "string \<Rightarrow> string" where
  "parent_dir p = (if os_path_dirname p = [] then ''.'' else os_path_dirname p)"

text \<open>
  \<^verbatim>\<open>open(p, "wb")\<close>: the file is created empty, or emptied, and its name is entered in
  its directory.
\<close>

definition open_write :: "filesystem \<Rightarrow> string \<Rightarrow> error + filesystem" where
  "open_write fs p =
     (case fs p of
        Some (Dir _) \<Rightarrow> Inl (IsADirectoryError p)
      | _ \<Rightarrow>
          (case fs (parent_dir p) of
             None \<Rightarrow> Inl (FileNotFoundError p)
           | Some (File _) \<Rightarrow> Inl (NotADirectoryError p)
           | Some (Dir names) \<Rightarrow>
               Inr (fs(parent_dir p \<mapsto>
                         Dir (if os_path_basename p \<in> set names then names
                              else names @ [os_path_basename p]),
                       p \<mapsto> File Empty))))"

definition pickle_dump :: "filesystem \<Rightarrow> string \<Rightarrow> pyobj \<Rightarrow> filesystem" where
  "pickle_dump fs p obj = fs(p \<mapsto> File (Pickle obj))"

text \<open>
  \<^verbatim>\<open>pickle.load\<close> raises \<^verbatim>\<open>EOFError\<close> on an empty file and \<^verbatim>\<open>UnpicklingError\<close> on other
  bytes that are not a pickle.
\<close>

definition pickle_load :: "filesystem \<Rightarrow> string \<Rightarrow> error + pyobj" where
  "pickle_load fs p =
     (case open_read fs p of
        Inl e \<Rightarrow> Inl e
      | Inr (Pickle obj) \<Rightarrow> Inr obj
      | Inr Empty \<Rightarrow> Inl EOFError
      | Inr _ \<Rightarrow> Inl UnpicklingError)"

text \<open>Python's \<^verbatim>\<open>and\<close> over \<^verbatim>\<open>os.path.isfile\<close> calls stops at the first that is false.\<close>

fun isfile_all :: "filesystem \<Rightarrow> string list \<Rightarrow> bool \<times> event list" where
  "isfile_all fs [] = (True, [])"
| "isfile_all fs (p # ps) =
     (if os_path_isfile fs p
      then (fst (isfile_all fs ps), Stat p # snd (isfile_all fs ps))
      else (False, [Stat p]))"

text \<open>
  \<^verbatim>\<open>sklearn.model_selection.train_test_split\<close> with a float \<^verbatim>\<open>test_size\<close>, an integer
  \<^verbatim>\<open>random_state\<close> and the default shuffling without stratification: the test set takes
  the first \<open>\<lceil>test_size \<times> n\<rceil>\<close> positions of the permutation that NumPy's generator draws
  for the seed, the training set the rest. The generator is the parameter \<open>permutation\<close>,
  from the seed and \<open>n\<close> to an arrangement of \<open>0, ..., n - 1\<close>. The product
  \<open>test_size \<times> n\<close> is a product of 64-bit floats, rounded before \<^verbatim>\<open>ceil\<close> is taken
  (\<open>0.28 \<times> 25\<close> gives 8, not 7): the ceiling of the rounded product is the parameter
  \<open>ceil_mul\<close>, from \<open>test_size\<close> and \<open>n\<close> to the number of test samples.
\<close>

definition validate_shuffle_split ::
  "(rat \<Rightarrow> nat \<Rightarrow> nat) \<Rightarrow> nat \<Rightarrow> rat \<Rightarrow> error + (nat \<times> nat)" where
  "validate_shuffle_split ceil_mul n_samples test_size =
     (if test_size \<le> 0 \<or> 1 \<le> test_size
      then Inl (ValueError ''test_size should be a float in the (0, 1) range'')
      else
        (let n_test = ceil_mul test_size n_samples;
             n_train = n_samples - n_test
         in if n_train = 0 then Inl (ValueError ''the resulting train set will be empty'')
            else Inr (n_train, n_test)))"

definition train_test_split ::
  "(rat \<Rightarrow> nat \<Rightarrow> nat) \<Rightarrow> (int \<Rightarrow> nat \<Rightarrow> nat list) \<Rightarrow> 'a list \<Rightarrow> 'b list \<Rightarrow> rat \<Rightarrow> int \<Rightarrow>
   error + ('a list \<times> 'a list \<times> 'b list \<times> 'b list)" where
  "train_test_split ceil_mul permutation xs ys test_size random_state =
     (if length xs \<noteq> length ys
      then Inl (ValueError ''Found input variables with inconsistent numbers of samples'')
      else
        (case validate_shuffle_split ceil_mul (length xs) test_size of
           Inl e \<Rightarrow> Inl e
         | Inr (n_train, n_test) \<Rightarrow>
             (let perm = permutation random_state (length xs);
                  ind_test = take n_test perm;
                  ind_train = take n_train (drop n_test perm)
              in Inr (map (\<lambda>i. xs ! i) ind_train, map (\<lambda>i. xs ! i) ind_test,
                      map (\<lambda>i. ys ! i) ind_train, map (\<lambda>i. ys ! i) ind_test))))"

definition RSNA_SUBTYPES :: "string list" where
  "RSNA_SUBTYPES =
     [''epidural'', ''intraparenchymal'', ''intraventricular'', ''subarachnoid'', ''subdural'', ''any'']"

definition corrupted_files :: "string list" where
  "corrupted_files = [''ID_6431af929.dcm'']"

text \<open>Lines 171 to 173: each denylisted name is removed once (\<^verbatim>\<open>list.remove\<close>) if it is listed.\<close>

fun remove_corrupted :: "string list \<Rightarrow> string list \<Rightarrow> string list" where
  "remove_corrupted [] total_filenames = total_filenames"
| "remove_corrupted (c # cs) total_filenames =
     remove_corrupted cs (if c \<in> set total_filenames then remove1 c total_filenames else total_filenames)"

text \<open>
  Lines 175 to 181: the label table, from the rows after the header. A later row for the
  same key replaces an earlier one.
\<close>

fun read_labels_dict ::
  "(string \<Rightarrow> error + fl) \<Rightarrow> string list list \<Rightarrow> (string \<rightharpoonup> fl) \<Rightarrow> error + (string \<rightharpoonup> fl)" where
  "read_labels_dict py_float [] labels_dict = Inr labels_dict"
| "read_labels_dict py_float (row # rows) labels_dict =
     (if length row < 2 then Inl IndexError
      else
        (case py_float (row ! 1) of
           Inl e \<Rightarrow> Inl e
         | Inr v \<Rightarrow> read_labels_dict py_float rows (labels_dict(row ! 0 \<mapsto> v))))"

text \<open>
  Lines 183 to 189: the six labels of each file, looked up under
  \<^verbatim>\<open>filename.split('.')[0] + "_" + subtype\<close>.
\<close>

definition label_key :: "string \<Rightarrow> string \<Rightarrow> string" where
  "label_key filename subtype = takeWhile (\<lambda>c. c \<noteq> CHR ''.'') filename @ ''_'' @ subtype"

definition dict_getitem :: "(string \<rightharpoonup> 'a) \<Rightarrow> string \<Rightarrow> error + 'a" where
  "dict_getitem d k = (case d k of None \<Rightarrow> Inl (KeyError k) | Some v \<Rightarrow> Inr v)"

definition build_labels :: "(string \<rightharpoonup> fl) \<Rightarrow> string list \<Rightarrow> error + fl list list" where
  "build_labels labels_dict total_filenames =
     traverse (\<lambda>filename.
        traverse (\<lambda>subtype. dict_getitem labels_dict (label_key filename subtype)) RSNA_SUBTYPES)
       total_filenames"

text \<open>Line 192: the four files are opened for writing one after the other.\<close>

fun open_all :: "filesystem \<Rightarrow> string list \<Rightarrow> (error + unit) \<times> filesystem \<times> event list" where
  "open_all fs [] = (Inr (), fs, [])"
| "open_all fs (p # ps) =
     (case open_write fs p of
        Inl e \<Rightarrow> (Inl e, fs, [OpenWrite p])
      | Inr fs1 \<Rightarrow>
          (case open_all fs1 ps of (r, fs2, evs) \<Rightarrow> (r, fs2, OpenWrite p # evs)))"

type_synonym split = "pyobj \<times> pyobj \<times> pyobj \<times> pyobj"

text \<open>Lines 163 and 164: the four stored objects, loaded in the order they are returned.\<close>

definition load_split :: "filesystem \<Rightarrow> string \<Rightarrow> string \<Rightarrow> string \<Rightarrow> string \<Rightarrow> error + split" where
  "load_split fs tf tl_p vf vl =
     (case pickle_load fs tf of
        Inl e \<Rightarrow> Inl e
      | Inr a \<Rightarrow>
     (case pickle_load fs tl_p of
        Inl e \<Rightarrow> Inl e
      | Inr b \<Rightarrow>
     (case pickle_load fs vf of
        Inl e \<Rightarrow> Inl e
      | Inr c \<Rightarrow>
     (case pickle_load fs vl of
        Inl e \<Rightarrow> Inl e
      | Inr d \<Rightarrow> Inr (a, b, c, d)))))"

text \<open>
  Lines 166 to 191: the listing without the denylisted names, the label table, the labels
  of the listed files and the split. Nothing is written here.
\<close>

definition compute_split ::
  "(rat \<Rightarrow> nat \<Rightarrow> nat) \<Rightarrow> (int \<Rightarrow> nat \<Rightarrow> nat list) \<Rightarrow> (string \<Rightarrow> error + fl) \<Rightarrow> filesystem \<Rightarrow> string \<Rightarrow> rat \<Rightarrow> int \<Rightarrow>
   error + (string list \<times> string list \<times> fl list list \<times> fl list list)" where
  "compute_split ceil_mul permutation py_float fs root_dir validation_size random_state =
     (case os_listdir fs (os_path_join root_dir ''stage_2_train'') of
        Inl e \<Rightarrow> Inl e
      | Inr listing \<Rightarrow>
     (case open_csv fs (os_path_join root_dir ''stage_2_train.csv'') of
        Inl e \<Rightarrow> Inl e
      | Inr rows \<Rightarrow>
     (case read_labels_dict py_float (tl rows) Map.empty of
        Inl e \<Rightarrow> Inl e
      | Inr labels_dict \<Rightarrow>
     (case build_labels labels_dict (remove_corrupted corrupted_files listing) of
        Inl e \<Rightarrow> Inl e
      | Inr labels \<Rightarrow>
          train_test_split ceil_mul permutation (remove_corrupted corrupted_files listing) labels
            validation_size random_state))))"

text \<open>
  \<^verbatim>\<open>rsna_train_valid_split\<close>, lines 154 to 195. It returns what the call returns or
  raises, the file system it leaves, and the operating-system calls it made.
\<close>

definition rsna_train_valid_split ::
  "(rat \<Rightarrow> nat \<Rightarrow> nat) \<Rightarrow> (int \<Rightarrow> nat \<Rightarrow> nat list) \<Rightarrow> (string \<Rightarrow> error + fl) \<Rightarrow> filesystem \<Rightarrow> string \<Rightarrow> rat \<Rightarrow> int \<Rightarrow> bool \<Rightarrow>
   (error + split) \<times> filesystem \<times> event list" where
  "rsna_train_valid_split ceil_mul permutation py_float fs root_dir validation_size random_state override =
     (let train_file_split_path = os_path_join root_dir ''train_file_split'';
          validation_file_split_path = os_path_join root_dir ''validation_file_split'';
          train_label_split_path = os_path_join root_dir ''train_label_split'';
          validation_label_split_path = os_path_join root_dir ''validation_label_split'';
          checks = isfile_all fs [train_file_split_path, validation_file_split_path,
                                  train_label_split_path, validation_label_split_path]
      in
      if fst checks \<and> \<not> override then
        (load_split fs train_file_split_path train_label_split_path
           validation_file_split_path validation_label_split_path,
         fs,
         snd checks @ [OpenRead train_file_split_path, OpenRead train_label_split_path,
                       OpenRead validation_file_split_path, OpenRead validation_label_split_path])
      else
        (case compute_split ceil_mul permutation py_float fs root_dir validation_size random_state of
           Inl e \<Rightarrow>
             (Inl e, fs,
              snd checks @
              (case os_listdir fs (os_path_join root_dir ''stage_2_train'') of
                 Inl _ \<Rightarrow> [ListDir (os_path_join root_dir ''stage_2_train'')]
               | Inr _ \<Rightarrow> [ListDir (os_path_join root_dir ''stage_2_train''),
                            OpenRead (os_path_join root_dir ''stage_2_train.csv'')]))
         | Inr (train_filenames, validation_filenames, train_labels, validation_labels) \<Rightarrow>
             (case open_all fs [train_file_split_path, train_label_split_path,
                                validation_file_split_path, validation_label_split_path] of
                (Inl e, fs1, evs) \<Rightarrow>
                  (Inl e, fs1,
                   snd checks @ [ListDir (os_path_join root_dir ''stage_2_train''),
                                 OpenRead (os_path_join root_dir ''stage_2_train.csv'')] @ evs)
              | (Inr _, fs1, evs) \<Rightarrow>
                  (Inr (StrList train_filenames, Array2 train_labels,
                        StrList validation_filenames, Array2 validation_labels),
                   pickle_dump (pickle_dump (pickle_dump (pickle_dump fs1
                     train_file_split_path (StrList train_filenames))
                     train_label_split_path (Array2 train_labels))
                     validation_file_split_path (StrList validation_filenames))
                     validation_label_split_path (Array2 validation_labels),
                   snd checks @ [ListDir (os_path_join root_dir ''stage_2_train''),
                                 OpenRead (os_path_join root_dir ''stage_2_train.csv'')] @ evs))))"

section \<open>Notions used to state the properties\<close>

text \<open>
  The spec's take-first accessor on a calibration field: the first entry of a multi-value
  sequence, the value itself when the field holds one.
\<close>

fun first_entry :: "dicom_value \<Rightarrow> fl option" where
  "first_entry (MultiValue []) = None"
| "first_entry (MultiValue (x # xs)) = Some x"
| "first_entry (SingleValue x) = Some x"

text \<open>\<^verbatim>\<open>t[k]\<close>: channel \<open>k\<close> of a stacked tensor.\<close>

definition channel :: "'a tensor \<Rightarrow> nat \<Rightarrow> 'a tensor" where
  "channel t k = \<lparr>shape = tl (shape t), elem = (\<lambda>idx. elem t (k # idx))\<rparr>"

text \<open>
  Slice \<open>i\<close> of a volume whose last axis is the slice index, as a plane: its entry at
  \<open>[x, y]\<close> is the volume's entry at \<open>[x, y, i]\<close>.
\<close>

definition slice_of :: "'a tensor \<Rightarrow> nat \<Rightarrow> 'a tensor" where
  "slice_of vol i = \<lparr>shape = [shape vol ! 0, shape vol ! 1], elem = (\<lambda>ij. elem vol [ij ! 0, ij ! 1, i])\<rparr>"

text \<open>The four persisted artifacts, in the order line 162 tests them.\<close>

definition artifact_paths :: "string \<Rightarrow> string list" where
  "artifact_paths root_dir =
     [os_path_join root_dir ''train_file_split'', os_path_join root_dir ''validation_file_split'',
      os_path_join root_dir ''train_label_split'', os_path_join root_dir ''validation_label_split'']"

text \<open>
  What the split relies on from its surroundings: the generator's permutation arranges
  \<open>0, ..., n - 1\<close>, and a directory lists no name twice.
\<close>

definition valid_permutation :: "(int \<Rightarrow> nat \<Rightarrow> nat list) \<Rightarrow> bool" where
  "valid_permutation permutation =
     (\<forall>seed n. distinct (permutation seed n) \<and> set (permutation seed n) = {0..<n})"

definition listings_distinct :: "filesystem \<Rightarrow> bool" where
  "listings_distinct fs = (\<forall>p names. fs p = Some (Dir names) \<longrightarrow> distinct names)"

text \<open>
  A path can be opened for writing when it is not a directory and the directory that
  holds it exists.
\<close>

definition writable :: "filesystem \<Rightarrow> string \<Rightarrow> bool" where
  "writable fs p =
     ((case fs p of Some (Dir _) \<Rightarrow> False | _ \<Rightarrow> True) \<and>
      (case fs (parent_dir p) of Some (Dir _) \<Rightarrow> True | _ \<Rightarrow> False))"

section \<open>Example data\<close>

text \<open>A small file system for the concrete instances: one DICOM slice of one row.\<close>

definition example_pixels :: "fl tensor" where
  "example_pixels = of_rows [[Fin 0, Fin 100]]"

definition example_dicom :: dicom_dataset where
  "example_dicom =
     \<lparr>elements =
        [(''0028'', ''1050'') \<mapsto> MultiValue [Fin 40, Fin 80],
         (''0028'', ''1051'') \<mapsto> SingleValue (Fin (161 / 2)),
         (''0028'', ''1052'') \<mapsto> SingleValue (Fin (- 1024)),
         (''0028'', ''1053'') \<mapsto> MultiValue [Fin 1]],
      pixel_data = Some example_pixels\<rparr>"

definition example_fs :: filesystem where
  "example_fs =
     [''data/stage_2_train'' \<mapsto> Dir [''a.dcm''],
      ''data/stage_2_train/a.dcm'' \<mapsto> File (Dicom example_dicom)]"

text \<open>A transform a caller may configure, \<^verbatim>\<open>lambda image: image[:1]\<close>: it keeps the first channel.\<close>

definition keep_first_channel :: "fl tensor \<Rightarrow> error + fl tensor" where
  "keep_first_channel t = Inr (t\<lparr>shape := 1 # tl (shape t)\<rparr>)"

text \<open>The RSNA data set over the example file system, for given windows and transform.\<close>

definition example_labels :: "fl list list" where
  "example_labels = [[Fin 0, Fin 1, Fin 0, Fin 0, Fin 0, Fin 1]]"

definition example_rsna ::
  "(int \<times> int) list option \<Rightarrow> (fl tensor \<Rightarrow> error + fl tensor) option \<Rightarrow> rsna_dataset" where
  "example_rsna windows transform = RSNAICHDataset_init ''data'' [''a.dcm''] example_labels windows transform"

text \<open>A PhysioNet data set of one slice with a given mask, without windows or transform.\<close>

definition example_physio :: "fl tensor \<Rightarrow> physionet_dataset" where
  "example_physio msk =
     \<lparr>scans_dir = ''data/ct_scans'',
      masks_dir = ''data/masks'',
      physio_filenames = [''049.nii''],
      slices = [example_pixels],
      scans_num_slices = [1],
      masks = [msk],
      physio_labels = example_labels,
      physio_transform = None,
      physio_windows = None,
      labels_path = ''data/hemorrhage_diagnosis_raw_ct.csv''\<rparr>"

text \<open>
  A PhysioNet directory for the concrete instances: one scan of one \<open>2 \<times> 2\<close> slice, its
  mask, and the label table. The stand-in for Python's \<^verbatim>\<open>float\<close> reads the two cells
  the table uses.
\<close>

definition example_scan :: "fl tensor" where
  "example_scan = \<lparr>shape = [2, 2, 1], elem = (\<lambda>idx. Fin (of_nat (2 * (idx ! 0) + idx ! 1)))\<rparr>"

definition example_mask :: "fl tensor" where
  "example_mask =
     \<lparr>shape = [2, 2, 1], elem = (\<lambda>idx. if idx ! 0 = 0 \<and> idx ! 1 = 1 then Fin 255 else Fin 0)\<rparr>"

definition example_py_float :: "string \<Rightarrow> error + fl" where
  "example_py_float cell =
     (if cell = ''0'' then Inr (Fin 0)
      else if cell = ''1'' then Inr (Fin 1)
      else Inl (ValueError ''could not convert string to float''))"

definition example_physio_fs :: filesystem where
  "example_physio_fs =
     [''data/ct_scans'' \<mapsto> Dir [''049.nii''],
      ''data/ct_scans/049.nii'' \<mapsto> File (Nifti example_scan),
      ''data/masks/049.nii'' \<mapsto> File (Nifti example_mask),
      ''data/hemorrhage_diagnosis_raw_ct.csv'' \<mapsto>
        File (Csv [[''Epidural'', ''Intraparenchymal'', ''Intraventricular'', ''Subarachnoid'',
                    ''Subdural'', ''No_Hemorrhage''],
                   [''0'', ''1'', ''0'', ''0'', ''0'', ''0'']])]"

text \<open>
  File systems for the concrete instances of the split: one that holds the four
  artifacts and nothing else, one with three slices, the denylisted file and the label
  table, and one whose label table lacks the rows of the third slice. The stand-in for
  NumPy's generator rotates \<open>0, ..., n - 1\<close> by the seed.
\<close>

definition example_cached_fs :: filesystem where
  "example_cached_fs =
     [''data/train_file_split'' \<mapsto> File (Pickle (StrList [''ID_a.dcm''])),
      ''data/train_label_split'' \<mapsto> File (Pickle (Array2 [[Fin 0, Fin 0, Fin 0, Fin 0, Fin 0, Fin 0]])),
      ''data/validation_file_split'' \<mapsto> File (Pickle (StrList [''ID_b.dcm''])),
      ''data/validation_label_split'' \<mapsto> File (Pickle (Array2 [[Fin 0, Fin 1, Fin 0, Fin 0, Fin 0, Fin 1]]))]"

definition example_ceil_mul :: "rat \<Rightarrow> nat \<Rightarrow> nat" where
  "example_ceil_mul test_size n = nat \<lceil>test_size * of_nat n\<rceil>"

definition example_permutation :: "int \<Rightarrow> nat \<Rightarrow> nat list" where
  "example_permutation seed n = rotate (nat (seed mod int n)) [0..<n]"

definition example_rows :: "string list list" where
  "example_rows =
     [''ID'', ''Label''] #
     concat (map (\<lambda>ident. map (\<lambda>subtype. [ident @ ''_'' @ subtype, if subtype = ''any'' then ''1'' else ''0''])
                    RSNA_SUBTYPES)
               [''ID_a'', ''ID_b'', ''ID_c''])"

definition example_split_fs :: filesystem where
  "example_split_fs =
     [''data'' \<mapsto> Dir [''stage_2_train'', ''stage_2_train.csv''],
      ''data/stage_2_train'' \<mapsto> Dir [''ID_a.dcm'', ''ID_6431af929.dcm'', ''ID_b.dcm'', ''ID_c.dcm''],
      ''data/stage_2_train.csv'' \<mapsto> File (Csv example_rows)]"

definition example_missing_fs :: filesystem where
  "example_missing_fs = example_split_fs(''data/stage_2_train.csv'' \<mapsto> File (Csv (take 13 example_rows)))"

text \<open>Persisted artifacts that were not computed from the directory: both lists name the denylisted file.\<close>

definition example_stale_fs :: filesystem where
  "example_stale_fs =
     [''data/train_file_split'' \<mapsto> File (Pickle (StrList [''ID_6431af929.dcm'', ''ID_a.dcm''])),
      ''data/train_label_split'' \<mapsto>
        File (Pickle (Array2 [[Fin 0, Fin 0, Fin 0, Fin 0, Fin 0, Fin 0],
                              [Fin 0, Fin 0, Fin 0, Fin 0, Fin 0, Fin 0]])),
      ''data/validation_file_split'' \<mapsto> File (Pickle (StrList [''ID_6431af929.dcm''])),
      ''data/validation_label_split'' \<mapsto> File (Pickle (Array2 [[Fin 0, Fin 0, Fin 0, Fin 0, Fin 0, Fin 0]]))]"

text \<open>The example directory with one label of the first slice changed by a later row.\<close>

definition example_relabelled_fs :: filesystem where
  "example_relabelled_fs =
     example_split_fs(''data/stage_2_train.csv'' \<mapsto> File (Csv (example_rows @ [[''ID_a_any'', ''0'']])))"

text \<open>
  A map of one plane for the concrete instances: the quarter turn of a square plane,
  \<open>out[i, j] = in[j, n - 1 - i]\<close>, for the angle 90.
\<close>

definition example_rot2d :: "'a tensor \<Rightarrow> int \<Rightarrow> 'a tensor" where
  "example_rot2d p angle =
     (if angle = 90
      then p\<lparr>elem := (\<lambda>ij. elem p [ij ! 1, shape p ! 0 - 1 - ij ! 0])\<rparr>
      else p)"

section \<open>Properties of the readers\<close>

lemma traverse_length: "traverse f xs = Inr ys \<Longrightarrow> length ys = length xs"
  by (induction xs arbitrary: ys) (auto split: sum.splits)

lemma first_entry_conv: "first_entry v = Some x \<Longrightarrow> get_first_of_dicom_field_as_int v = py_int x"
  by (cases v rule: first_entry.cases) auto

text \<open>
  C8: for each of the four calibration fields read by \<^verbatim>\<open>_read_image_2d\<close> (window centre,
  window width, intercept, slope), the extracted scalar is the integer conversion of the
  first entry when the field is a multi-value sequence and of the value itself when the
  field holds a single value. The four scalars come in that order, from
  \<^verbatim>\<open>_get_windowing\<close> and as the calibration that \<^verbatim>\<open>_read_image_2d\<close> returns.
\<close>

theorem calibration_fields_take_first:
  assumes "elements d (''0028'', ''1050'') = Some vc" and "first_entry vc = Some xc"
    and "elements d (''0028'', ''1051'') = Some vw" and "first_entry vw = Some xw"
    and "elements d (''0028'', ''1052'') = Some vi" and "first_entry vi = Some xi"
    and "elements d (''0028'', ''1053'') = Some vs" and "first_entry vs = Some xs"
  shows "get_windowing d = traverse py_int [xc, xw, xi, xs] \<and>
         (os_path_isfile fs p \<and> fs p = Some (File (Dicom d)) \<and> pixel_data d = Some px \<longrightarrow>
            read_image_2d fs (Some p) =
              (case traverse py_int [xc, xw, xi, xs] of
                 Inl e \<Rightarrow> Inl e
               | Inr window_params \<Rightarrow> Inr (px, window_params)))"
proof -
  have gw: "get_windowing d = traverse py_int [xc, xw, xi, xs]"
    using assms by (simp add: get_windowing_def dataset_getitem_def first_entry_conv cong: sum.case_cong)
  show ?thesis
    by (auto simp: gw read_image_2d_def pydicom_read_file_def open_read_def pixel_array_def
        split: sum.splits)
qed

theorem calibration_fields_take_first_witness:
  "get_windowing example_dicom = Inr [40, 80, - 1024, 1] \<and>
   read_image_2d example_fs (Some ''data/stage_2_train/a.dcm'') = Inr (example_pixels, [40, 80, - 1024, 1])"
proof -
  have e: "elements example_dicom (''0028'', ''1050'') = Some (MultiValue [Fin 40, Fin 80])"
      "elements example_dicom (''0028'', ''1051'') = Some (SingleValue (Fin (161 / 2)))"
      "elements example_dicom (''0028'', ''1052'') = Some (SingleValue (Fin (- 1024)))"
      "elements example_dicom (''0028'', ''1053'') = Some (MultiValue [Fin 1])"
    by (simp_all add: example_dicom_def)
  have f: "first_entry (MultiValue [Fin 40, Fin 80]) = Some (Fin 40)"
      "first_entry (SingleValue (Fin (161 / 2))) = Some (Fin (161 / 2))"
      "first_entry (SingleValue (Fin (- 1024))) = Some (Fin (- 1024))"
      "first_entry (MultiValue [Fin 1]) = Some (Fin 1)"
    by simp_all
  have ex: "os_path_isfile example_fs ''data/stage_2_train/a.dcm'' \<and>
      example_fs ''data/stage_2_train/a.dcm'' = Some (File (Dicom example_dicom)) \<and>
      pixel_data example_dicom = Some example_pixels"
    by (simp add: example_fs_def os_path_isfile_def example_dicom_def)
  have "\<lfloor>161 / 2 :: rat\<rfloor> = 80"
    by (simp add: floor_eq_iff)
  then have conv: "traverse py_int [Fin 40, Fin (161 / 2), Fin (- 1024), Fin 1] = Inr [40, 80, - 1024, 1]"
    by simp
  from calibration_fields_take_first [OF e(1) f(1) e(2) f(2) e(3) f(3) e(4) f(4),
      of example_fs "''data/stage_2_train/a.dcm''" example_pixels] ex conv
  show ?thesis by simp
qed

lemma traverse_Inl: "traverse f xs = Inl e \<Longrightarrow> \<exists>x \<in> set xs. f x = Inl e"
  by (induction xs) (auto split: sum.splits)

lemma py_int_not_assertion: "py_int x \<noteq> Inl (AssertionError m)"
  by (cases x) auto

lemma get_first_not_assertion: "get_first_of_dicom_field_as_int v \<noteq> Inl (AssertionError m)"
  by (cases v rule: get_first_of_dicom_field_as_int.cases) (auto simp: py_int_not_assertion)

lemma get_windowing_not_assertion: "get_windowing d \<noteq> Inl (AssertionError m)"
proof
  assume a: "get_windowing d = Inl (AssertionError m)"
  show False
  proof (cases "traverse (dataset_getitem d)
      [(''0028'', ''1050''), (''0028'', ''1051''), (''0028'', ''1052''), (''0028'', ''1053'')]")
    case (Inl e)
    with a have "e = AssertionError m" by (simp add: get_windowing_def)
    with traverse_Inl [OF Inl] show False
      by (auto simp: dataset_getitem_def split: option.splits)
  next
    case (Inr vs)
    with a have "traverse get_first_of_dicom_field_as_int vs = Inl (AssertionError m)"
      by (simp add: get_windowing_def)
    from traverse_Inl [OF this] show False
      by (auto simp: get_first_not_assertion)
  qed
qed

lemma read_image_2d_existing: "os_path_isfile fs p \<Longrightarrow> read_image_2d fs (Some p) \<noteq> Inl (AssertionError m)"
  using get_windowing_not_assertion
  by (auto simp: read_image_2d_def pydicom_read_file_def open_read_def os_path_isfile_def
      pixel_array_def split: sum.splits option.splits node.splits content.splits)

lemma permute_not_assertion: "permute t dims \<noteq> Inl (AssertionError m)"
  by (simp add: permute_def)

lemma rotate_not_assertion: "tv_rotate rot2d t angle \<noteq> Inl (AssertionError m)"
  by (simp add: tv_rotate_def)

lemma read_image_3d_existing:
  "os_path_isfile fs p \<Longrightarrow> read_image_3d rot2d fs (Some p) do_rotate \<noteq> Inl (AssertionError m)"
  by (auto simp: permute_not_assertion rotate_not_assertion read_image_3d_def nibabel_load_def open_read_def os_path_isfile_def
      split: sum.splits option.splits node.splits content.splits)

text \<open>
  C7: for a path that does not name an existing file, \<^verbatim>\<open>_read_image_2d\<close> and
  \<^verbatim>\<open>_read_image_3d\<close> both fail with the assertion \<^verbatim>\<open>'wrong file path'\<close>, which is the
  spec's \<^verbatim>\<open>NotFoundError\<close>; for a path that names an existing file neither of them
  raises it, whatever the file holds.
\<close>

theorem missing_file_fails:
  "(\<not> os_path_isfile fs p \<longrightarrow>
      read_image_2d fs (Some p) = Inl (AssertionError ''wrong file path'') \<and>
      read_image_3d rot2d fs (Some p) do_rotate = Inl (AssertionError ''wrong file path'')) \<and>
   (os_path_isfile fs p \<longrightarrow>
      read_image_2d fs (Some p) \<noteq> Inl (AssertionError ''wrong file path'') \<and>
      read_image_3d rot2d fs (Some p) do_rotate \<noteq> Inl (AssertionError ''wrong file path''))"
  by (simp add: read_image_2d_existing read_image_3d_existing) (simp add: read_image_2d_def read_image_3d_def)


theorem missing_file_fails_witness:
  "\<not> os_path_isfile example_fs ''data/stage_2_train/b.dcm'' \<and>
   read_image_2d example_fs (Some ''data/stage_2_train/b.dcm'') = Inl (AssertionError ''wrong file path'') \<and>
   read_image_3d example_rot2d example_fs (Some ''data/stage_2_train/b.dcm'') True =
     Inl (AssertionError ''wrong file path'') \<and>
   os_path_isfile example_fs ''data/stage_2_train/a.dcm'' \<and>
   read_image_2d example_fs (Some ''data/stage_2_train/a.dcm'') \<noteq> Inl (AssertionError ''wrong file path'') \<and>
   read_image_3d example_rot2d example_fs (Some ''data/stage_2_train/a.dcm'') True \<noteq>
     Inl (AssertionError ''wrong file path'')"
proof -
  have absent: "\<not> os_path_isfile example_fs ''data/stage_2_train/b.dcm''"
    by (simp add: os_path_isfile_def example_fs_def)
  have present: "os_path_isfile example_fs ''data/stage_2_train/a.dcm''"
    by (simp add: os_path_isfile_def example_fs_def)
  from absent present
    missing_file_fails [of example_fs "''data/stage_2_train/b.dcm''" example_rot2d True]
    missing_file_fails [of example_fs "''data/stage_2_train/a.dcm''" example_rot2d True]
  show ?thesis by blast
qed

section \<open>Properties of the RSNA data set\<close>

lemma traverse_nth: "traverse f xs = Inr ys \<Longrightarrow> k < length xs \<Longrightarrow> f (xs ! k) = Inr (ys ! k)"
proof (induction xs arbitrary: ys k)
  case Nil
  then show ?case by simp
next
  case (Cons x xs)
  then show ?case by (cases k) (auto split: sum.splits)
qed

lemma torch_stack_empty: "torch_stack [] = Inl (RuntimeError ''stack expects a non-empty TensorList'')"
  by (simp add: torch_stack_def)

lemma torch_stack_Inr:
  assumes "torch_stack ts = Inr t"
  shows "ts \<noteq> []" and "shape t = length ts # shape (hd ts)"
    and "\<And>k. k < length ts \<Longrightarrow> shape (ts ! k) = shape (hd ts)"
    and "\<And>k. k < length ts \<Longrightarrow> channel t k = ts ! k"
proof -
  from assms obtain u rest where ts: "ts = u # rest"
    by (cases ts) (auto simp: torch_stack_def)
  from assms ts have same: "list_all (\<lambda>v. shape v = shape u) rest"
    and t: "t = \<lparr>shape = length ts # shape u, elem = (\<lambda>idx. elem (ts ! hd idx) (tl idx))\<rparr>"
    by (auto simp: torch_stack_def split: if_splits)
  show "ts \<noteq> []" using ts by simp
  show "shape t = length ts # shape (hd ts)" using t ts by simp
  show sh: "shape (ts ! k) = shape (hd ts)" if "k < length ts" for k
    using that same ts by (cases k) (auto simp: list_all_length)
  show "channel t k = ts ! k" if "k < length ts" for k
    using sh [OF that] t ts by (simp add: channel_def)
qed

lemma get_image_windows_empty:
  "get_image_windows wi img [] i s = Inl (RuntimeError ''stack expects a non-empty TensorList'')"
  by (simp add: get_image_windows_def torch_stack_def)

lemma get_image_windows_Inr:
  assumes "get_image_windows wi img ws i s = Inr t"
  shows "ws \<noteq> []" and "hd (shape t) = length ws"
    and "\<And>k. k < length ws \<Longrightarrow> wi img (ws ! k) i s = Inr (channel t k)"
    and "\<And>k. k < length ws \<Longrightarrow> shape (channel t k) = tl (shape t)"
proof -
  from assms obtain imgs where tr: "traverse (\<lambda>w. wi img w i s) ws = Inr imgs"
    and st: "torch_stack imgs = Inr t"
    by (auto simp: get_image_windows_def split: sum.splits)
  have len: "length imgs = length ws" using tr by (rule traverse_length)
  show "ws \<noteq> []" using torch_stack_Inr(1) [OF st] len by auto
  show "hd (shape t) = length ws" using torch_stack_Inr(2) [OF st] len by simp
  show "wi img (ws ! k) i s = Inr (channel t k)" if "k < length ws" for k
    using traverse_nth [OF tr that] torch_stack_Inr(4) [OF st, of k] that len by simp
  show "shape (channel t k) = tl (shape t)" if "k < length ws" for k
    by (simp add: channel_def)
qed

lemma torch_cat_pair:
  assumes "torch_cat [a, b] = Inr t"
  shows "shape a \<noteq> []" and "shape b \<noteq> []" and "tl (shape b) = tl (shape a)"
    and "shape t = (hd (shape a) + hd (shape b)) # tl (shape a)"
    and "\<And>k. k < hd (shape a) \<Longrightarrow> channel t k = channel a k"
    and "\<And>k. channel t (hd (shape a) + k) = channel b k"
  using assms by (auto simp: torch_cat_def channel_def split: if_splits)


lemma getitem_parts:
  assumes "RSNAICHDataset_getitem wi fs self item = Inr (result, label)"
  obtains filename img c w i s dw stacked where
    "py_index (rsna_filenames self) item = Inr filename"
    "read_image_2d fs (Some (os_path_join (rsna_train_dir self) filename)) = Inr (img, [c, w, i, s])"
    "py_index (rsna_labels self) item = Inr label"
    "get_image_windows wi img [(c, w)] i s = Inr dw"
    "(case rsna_windows self of
        Some windows \<Rightarrow>
          (case get_image_windows wi img windows i s of
             Inl e \<Rightarrow> Inl e
           | Inr caller_windows \<Rightarrow> torch_cat [dw, caller_windows])
      | None \<Rightarrow> Inr dw) = Inr stacked"
    "(case rsna_transform self of Some f \<Rightarrow> f stacked | None \<Rightarrow> Inr stacked) = Inr result"
  using assms unfolding RSNAICHDataset_getitem_def
  by (auto split: sum.splits list.splits prod.splits)

lemma rsna_windows_channels_aux:
  assumes "RSNAICHDataset_getitem wi fs self item = Inr (result, label)"
    and "rsna_windows self = Some windows"
  shows "windows \<noteq> []"
proof -
  from assms(1) obtain img c w i s dw stacked where
    st: "(case rsna_windows self of
        Some windows \<Rightarrow>
          (case get_image_windows wi img windows i s of
             Inl e \<Rightarrow> Inl e
           | Inr caller_windows \<Rightarrow> torch_cat [dw, caller_windows])
      | None \<Rightarrow> Inr dw) = Inr stacked"
    by (rule getitem_parts)
  with assms(2) obtain cw where "get_image_windows wi img windows i s = Inr cw"
    by (auto split: sum.splits)
  then show ?thesis by (rule get_image_windows_Inr(1))
qed

text \<open>
  C2, as amended: for every sample that \<^verbatim>\<open>RSNAICHDataset.__getitem__\<close> returns with a list
  of \<open>n\<close> caller windows, the list is not empty and the tensor the adapter assembles has
  exactly \<open>1 + n\<close> channels: channel 0 is the default window, computed from the centre,
  width, intercept and slope read from the image's own file, and channel \<open>1 + k\<close> is the
  \<open>k\<close>-th caller window, in the order requested. That tensor is returned as it is when
  no transform is configured; a configured transform receives it and its result is
  returned.
\<close>

theorem rsna_windows_channels:
  assumes "RSNAICHDataset_getitem window_image fs self item = Inr (result, label)"
    and "rsna_windows self = Some windows"
  shows "\<exists>filename img c w i s stacked.
     py_index (rsna_filenames self) item = Inr filename \<and>
     read_image_2d fs (Some (os_path_join (rsna_train_dir self) filename)) = Inr (img, [c, w, i, s]) \<and>
     windows \<noteq> [] \<and>
     hd (shape stacked) = 1 + length windows \<and>
     window_image img (c, w) i s = Inr (channel stacked 0) \<and>
     (\<forall>k<length windows. window_image img (windows ! k) i s = Inr (channel stacked (Suc k))) \<and>
     (case rsna_transform self of None \<Rightarrow> result = stacked | Some f \<Rightarrow> f stacked = Inr result)"
proof -
  from assms(1) obtain filename img c w i s dw stacked where
    fn: "py_index (rsna_filenames self) item = Inr filename"
    and rd: "read_image_2d fs (Some (os_path_join (rsna_train_dir self) filename)) = Inr (img, [c, w, i, s])"
    and dw: "get_image_windows window_image img [(c, w)] i s = Inr dw"
    and st: "(case rsna_windows self of
        Some windows \<Rightarrow>
          (case get_image_windows window_image img windows i s of
             Inl e \<Rightarrow> Inl e
           | Inr caller_windows \<Rightarrow> torch_cat [dw, caller_windows])
      | None \<Rightarrow> Inr dw) = Inr stacked"
    and tr: "(case rsna_transform self of Some f \<Rightarrow> f stacked | None \<Rightarrow> Inr stacked) = Inr result"
    by (rule getitem_parts)
  from st assms(2) obtain cw where cw: "get_image_windows window_image img windows i s = Inr cw"
    and cat: "torch_cat [dw, cw] = Inr stacked"
    by (auto split: sum.splits)
  have d1: "hd (shape dw) = 1" and d0: "window_image img (c, w) i s = Inr (channel dw 0)"
    using get_image_windows_Inr(2) [OF dw] get_image_windows_Inr(3) [OF dw, of 0] by simp_all
  have c1: "hd (shape cw) = length windows" and ne: "windows \<noteq> []"
    using get_image_windows_Inr(2) [OF cw] get_image_windows_Inr(1) [OF cw] by simp_all
  have sh: "hd (shape stacked) = 1 + length windows"
    using torch_cat_pair(4) [OF cat] d1 c1 by simp
  have ch0: "channel stacked 0 = channel dw 0"
    using torch_cat_pair(5) [OF cat, of 0] d1 by simp
  have chk: "channel stacked (Suc k) = channel cw k" for k
    using torch_cat_pair(6) [OF cat, of k] d1 by simp
  have callers: "\<forall>k<length windows. window_image img (windows ! k) i s = Inr (channel stacked (Suc k))"
    using get_image_windows_Inr(3) [OF cw] chk by simp
  have tr': "(case rsna_transform self of None \<Rightarrow> result = stacked | Some f \<Rightarrow> f stacked = Inr result)"
    using tr by (auto split: option.splits)
  show ?thesis
    using fn rd ne sh d0 ch0 callers tr' by (intro exI conjI) (assumption | simp)+
qed


lemma example_read:
  "read_image_2d example_fs (Some ''data/stage_2_train/a.dcm'') = Inr (example_pixels, [40, 80, - 1024, 1])"
proof -
  have "\<lfloor>161 / 2 :: rat\<rfloor> = 80"
    by (simp add: floor_eq_iff)
  then show ?thesis
    by (simp add: read_image_2d_def os_path_isfile_def example_fs_def pydicom_read_file_def
        open_read_def get_windowing_def dataset_getitem_def example_dicom_def pixel_array_def)
qed

lemma example_path: "os_path_join (rsna_train_dir (example_rsna ws tr)) ''a.dcm'' = ''data/stage_2_train/a.dcm''"
  by (simp add: example_rsna_def RSNAICHDataset_init_def os_path_join_def)

lemma example_fields:
  "rsna_filenames (example_rsna ws tr) = [''a.dcm'']"
  "rsna_labels (example_rsna ws tr) = example_labels"
  "rsna_windows (example_rsna ws tr) = ws"
  "rsna_transform (example_rsna ws tr) = tr"
  by (simp_all add: example_rsna_def RSNAICHDataset_init_def)

lemma example_getitem_two:
  "\<exists>result label. RSNAICHDataset_getitem apply_window example_fs
      (example_rsna (Some [(40, 120), (80, 200)]) None) 0 = Inr (result, label)"
  by (simp add: RSNAICHDataset_getitem_def example_path example_read py_index_def
      get_image_windows_def apply_window_def torch_stack_def torch_cat_def Let_def
      example_fields example_labels_def example_pixels_def of_rows_def)

theorem rsna_windows_channels_witness:
  "\<exists>result label stacked.
     RSNAICHDataset_getitem apply_window example_fs
       (example_rsna (Some [(40, 120), (80, 200)]) None) 0 = Inr (result, label) \<and>
     result = stacked \<and>
     hd (shape stacked) = 3 \<and>
     apply_window example_pixels (40, 80) (- 1024) 1 = Inr (channel stacked 0) \<and>
     apply_window example_pixels (40, 120) (- 1024) 1 = Inr (channel stacked 1) \<and>
     apply_window example_pixels (80, 200) (- 1024) 1 = Inr (channel stacked 2)"
proof -
  from example_getitem_two obtain result label where
    g: "RSNAICHDataset_getitem apply_window example_fs
      (example_rsna (Some [(40, 120), (80, 200)]) None) 0 = Inr (result, label)"
    by blast
  have w: "rsna_windows (example_rsna (Some [(40, 120), (80, 200)]) None) = Some [(40, 120), (80, 200)]"
    and t: "rsna_transform (example_rsna (Some [(40, 120), (80, 200)]) None) = None"
    and f: "py_index (rsna_filenames (example_rsna (Some [(40, 120), (80, 200)]) None)) 0 = Inr ''a.dcm''"
    by (simp_all add: example_fields py_index_def)
  from rsna_windows_channels [OF g w] obtain filename img c w' i s stacked where
    "py_index (rsna_filenames (example_rsna (Some [(40, 120), (80, 200)]) None)) 0 = Inr filename"
    and rd: "read_image_2d example_fs
       (Some (os_path_join (rsna_train_dir (example_rsna (Some [(40, 120), (80, 200)]) None)) filename)) =
       Inr (img, [c, w', i, s])"
    and sh: "hd (shape stacked) = 1 + length [(40, 120), (80::int, 200::int)]"
    and d: "apply_window img (c, w') i s = Inr (channel stacked 0)"
    and cs: "\<forall>k<length [(40, 120), (80::int, 200::int)].
       apply_window img ([(40, 120), (80, 200)] ! k) i s = Inr (channel stacked (Suc k))"
    and tr: "(case rsna_transform (example_rsna (Some [(40, 120), (80, 200)]) None) of
       None \<Rightarrow> result = stacked | Some f \<Rightarrow> f stacked = Inr result)"
    by blast
  then have fn: "filename = ''a.dcm''" using f by simp
  from rd have eqs: "img = example_pixels" "c = 40" "w' = 80" "i = - 1024" "s = 1"
    by (simp_all add: fn example_path example_read)
  from cs [rule_format, of 0] cs [rule_format, of 1]
  have c0: "apply_window img (40, 120) i s = Inr (channel stacked 1)"
    and c1: "apply_window img (80, 200) i s = Inr (channel stacked 2)"
    by (simp_all add: numeral_2_eq_2)
  from tr t have "result = stacked" by simp
  with g sh d c0 c1 eqs show ?thesis by auto
qed


text \<open>
  C2 as stated fails when a transform is configured: with two caller windows and the
  transform that keeps the first channel, the returned tensor has one channel, not three.
\<close>

theorem rsna_transform_changes_channels:
  "(case RSNAICHDataset_getitem apply_window example_fs
           (example_rsna (Some [(40, 120), (80, 200)]) (Some keep_first_channel)) 0 of
      Inl e \<Rightarrow> None
    | Inr (result, label) \<Rightarrow> Some (shape result)) = Some [1, 1, 2]"
  by (simp add: RSNAICHDataset_getitem_def example_path example_read py_index_def
      get_image_windows_def apply_window_def torch_stack_def torch_cat_def Let_def
      example_fields example_labels_def example_pixels_def of_rows_def keep_first_channel_def)

text \<open>
  C1 as stated fails: with an empty list of caller windows the adapter returns no sample,
  because \<^verbatim>\<open>torch.stack\<close> rejects the empty list of window images.
\<close>

theorem rsna_empty_windows_raises:
  "RSNAICHDataset_getitem apply_window example_fs (example_rsna (Some []) None) 0 =
     Inl (RuntimeError ''stack expects a non-empty TensorList'')"
  by (simp add: RSNAICHDataset_getitem_def example_path example_read py_index_def
      get_image_windows_def apply_window_def torch_stack_def torch_cat_def Let_def
      example_fields example_labels_def example_pixels_def of_rows_def)

text \<open>
  C1, as amended: building the windowed tensor for an empty list of windows raises, so a
  data set configured with the empty list returns no sample. A data set configured
  without caller windows (\<^verbatim>\<open>windows=None\<close>, the constructor's default) assembles for every
  sample it returns a tensor of exactly one channel, the default window computed from the
  image's own calibration; that tensor is returned as it is when no transform is
  configured, and handed to the transform otherwise.
\<close>

theorem rsna_default_window_only:
  "get_image_windows window_image img [] intercept slope =
     Inl (RuntimeError ''stack expects a non-empty TensorList'') \<and>
   (rsna_windows self = Some [] \<longrightarrow>
      (\<exists>e. RSNAICHDataset_getitem window_image fs self item = Inl e)) \<and>
   (rsna_windows self = None \<and>
    RSNAICHDataset_getitem window_image fs self item = Inr (result, label) \<longrightarrow>
      (\<exists>filename img c w i s stacked.
         py_index (rsna_filenames self) item = Inr filename \<and>
         read_image_2d fs (Some (os_path_join (rsna_train_dir self) filename)) = Inr (img, [c, w, i, s]) \<and>
         hd (shape stacked) = 1 \<and>
         window_image img (c, w) i s = Inr (channel stacked 0) \<and>
         (case rsna_transform self of None \<Rightarrow> result = stacked | Some f \<Rightarrow> f stacked = Inr result)))"
proof (intro conjI impI)
  show "get_image_windows window_image img [] intercept slope =
     Inl (RuntimeError ''stack expects a non-empty TensorList'')"
    by (rule get_image_windows_empty)
next
  assume e: "rsna_windows self = Some []"
  show "\<exists>e. RSNAICHDataset_getitem window_image fs self item = Inl e"
  proof (cases "RSNAICHDataset_getitem window_image fs self item")
    case (Inl e)
    then show ?thesis by blast
  next
    case (Inr r)
    obtain result label where "r = (result, label)" by (cases r)
    with Inr rsna_windows_channels_aux [of window_image fs self item result label "[]"] e
    show ?thesis by simp
  qed
next
  assume a: "rsna_windows self = None \<and>
    RSNAICHDataset_getitem window_image fs self item = Inr (result, label)"
  then obtain filename img c w i s dw stacked where
    fn: "py_index (rsna_filenames self) item = Inr filename"
    and rd: "read_image_2d fs (Some (os_path_join (rsna_train_dir self) filename)) = Inr (img, [c, w, i, s])"
    and dw: "get_image_windows window_image img [(c, w)] i s = Inr dw"
    and st: "(case rsna_windows self of
        Some windows \<Rightarrow>
          (case get_image_windows window_image img windows i s of
             Inl e \<Rightarrow> Inl e
           | Inr caller_windows \<Rightarrow> torch_cat [dw, caller_windows])
      | None \<Rightarrow> Inr dw) = Inr stacked"
    and tr: "(case rsna_transform self of Some f \<Rightarrow> f stacked | None \<Rightarrow> Inr stacked) = Inr result"
    by (elim conjE getitem_parts)
  from st a have eq: "stacked = dw" by simp
  have d1: "hd (shape dw) = 1" and d0: "window_image img (c, w) i s = Inr (channel dw 0)"
    using get_image_windows_Inr(2) [OF dw] get_image_windows_Inr(3) [OF dw, of 0] by simp_all
  have tr': "(case rsna_transform self of None \<Rightarrow> result = stacked | Some f \<Rightarrow> f stacked = Inr result)"
    using tr by (auto split: option.splits)
  show "\<exists>filename img c w i s stacked.
         py_index (rsna_filenames self) item = Inr filename \<and>
         read_image_2d fs (Some (os_path_join (rsna_train_dir self) filename)) = Inr (img, [c, w, i, s]) \<and>
         hd (shape stacked) = 1 \<and>
         window_image img (c, w) i s = Inr (channel stacked 0) \<and>
         (case rsna_transform self of None \<Rightarrow> result = stacked | Some f \<Rightarrow> f stacked = Inr result)"
    using fn rd d1 d0 tr' unfolding eq by (intro exI conjI) (assumption | simp)+
qed

lemma example_getitem_none:
  "\<exists>result label. RSNAICHDataset_getitem apply_window example_fs (example_rsna None None) 0 =
      Inr (result, label)"
  by (simp add: RSNAICHDataset_getitem_def example_path example_read py_index_def
      get_image_windows_def apply_window_def torch_stack_def Let_def
      example_fields example_labels_def example_pixels_def of_rows_def)

theorem rsna_default_window_only_witness:
  "(\<exists>e. RSNAICHDataset_getitem apply_window example_fs (example_rsna (Some []) None) 0 = Inl e) \<and>
   (\<exists>result label.
      RSNAICHDataset_getitem apply_window example_fs (example_rsna None None) 0 = Inr (result, label) \<and>
      hd (shape result) = 1 \<and>
      apply_window example_pixels (40, 80) (- 1024) 1 = Inr (channel result 0))"
proof -
  from example_getitem_none obtain result label where
    g: "RSNAICHDataset_getitem apply_window example_fs (example_rsna None None) 0 = Inr (result, label)"
    by blast
  have f: "py_index (rsna_filenames (example_rsna None None)) 0 = Inr ''a.dcm''"
    by (simp add: example_fields py_index_def)
  have first: "\<exists>e. RSNAICHDataset_getitem apply_window example_fs (example_rsna (Some []) None) 0 = Inl e"
    using rsna_default_window_only [of apply_window example_pixels 0 1 "example_rsna (Some []) None"
        example_fs 0 result label]
    by (simp add: example_fields)
  from rsna_default_window_only [of apply_window example_pixels 0 1 "example_rsna None None"
      example_fs 0 result label] g
  obtain filename img c w i s stacked where
    "py_index (rsna_filenames (example_rsna None None)) 0 = Inr filename"
    and rd: "read_image_2d example_fs
       (Some (os_path_join (rsna_train_dir (example_rsna None None)) filename)) = Inr (img, [c, w, i, s])"
    and sh: "hd (shape stacked) = 1"
    and d: "apply_window img (c, w) i s = Inr (channel stacked 0)"
    and tr: "(case rsna_transform (example_rsna None None) of
       None \<Rightarrow> result = stacked | Some f \<Rightarrow> f stacked = Inr result)"
    by (auto simp: example_fields)
  then have fn: "filename = ''a.dcm''" using f by simp
  from rd have eqs: "img = example_pixels" "c = 40" "w = 80" "i = - 1024" "s = 1"
    by (simp_all add: fn example_path example_read)
  from tr have "result = stacked" by (simp add: example_fields)
  with g sh d eqs first show ?thesis by auto
qed

section \<open>Properties of the PhysioNet data set\<close>

lemma float32_limit_positive: "0 < float32_limit"
  by (simp add: float32_limit_def)

lemma example_physio_fields:
  "masks (example_physio msk) = [msk]"
  "slices (example_physio msk) = [example_pixels]"
  "physio_labels (example_physio msk) = example_labels"
  "physio_transform (example_physio msk) = None"
  "physio_windows (example_physio msk) = None"
  by (simp_all add: example_physio_def)

lemma entries_row2: "entries (of_rows [[a, b]]) = [a, b]"
  by (simp add: entries_def of_rows_def)

lemma example_window_ok:
  "\<exists>t. get_image_windows apply_window example_pixels [(40, 120)] 0 1 = Inr t"
  by (simp add: get_image_windows_def apply_window_def torch_stack_def Let_def)

lemma example_physio_getitem:
  "rescale_mask msk = Inr m1 \<Longrightarrow>
   \<exists>img label. PhysioNetICHDataset_getitem apply_window (example_physio msk) 0 = Inr (img, m1, label)"
  using example_window_ok
  by (auto simp: PhysioNetICHDataset_getitem_def example_physio_fields py_index_def example_labels_def)

text \<open>
  C10: in \<^verbatim>\<open>PhysioNetICHDataset.__getitem__\<close> a mask that is constant at its minimum is
  to be returned unchanged, with no division by \<open>max - min = 0\<close>. The guard on line 110
  tests only that the maximum is positive: for the mask constant at 255, whose maximum and
  minimum are both 255, line 111 divides \<open>mask - min = 0\<close> by \<open>max - min = 0\<close>, and the
  mask is returned with every entry NaN.
\<close>

theorem constant_mask_divides_by_zero:
  "tensor_max (of_rows [[Fin 255, Fin 255]]) = Inr (Fin 255) \<and>
   tensor_min (of_rows [[Fin 255, Fin 255]]) = Inr (Fin 255) \<and>
   (case PhysioNetICHDataset_getitem apply_window (example_physio (of_rows [[Fin 255, Fin 255]])) 0 of
      Inl e \<Rightarrow> None
    | Inr (img, m, label) \<Rightarrow> Some (elem m [0, 0], elem m [0, 1])) = Some (NaN, NaN)"
proof -
  have mx: "tensor_max (of_rows [[Fin 255, Fin 255]]) = Inr (Fin 255)"
    and mn: "tensor_min (of_rows [[Fin 255, Fin 255]]) = Inr (Fin 255)"
    by (simp_all add: tensor_max_def tensor_min_def entries_row2)
  have zero: "fl_of_rat float32_limit 0 = Fin 0"
    using float32_limit_positive by (simp add: fl_of_rat_def)
  have "rescale_mask (of_rows [[Fin 255, Fin 255]]) =
      Inr ((of_rows [[Fin 255, Fin 255]])\<lparr>elem := (\<lambda>idx.
        fl_div float32_limit (fl_sub float32_limit (elem (of_rows [[Fin 255, Fin 255]]) idx) (Fin 255))
          (fl_sub float32_limit (Fin 255) (Fin 255)))\<rparr>)"
    by (simp add: rescale_mask_def mx mn)
  from example_physio_getitem [OF this] mx mn show ?thesis
    by (auto simp: of_rows_def zero)
qed

lemma length3: "length xs = 3 \<Longrightarrow> \<exists>a b c. xs = [a, b, c]"
  by (cases xs; cases "tl xs"; cases "tl (tl xs)") auto

lemma permute_Inr:
  assumes "permute t dims = Inr a"
  shows "length (shape t) = length dims"
    and "shape a = map (\<lambda>d. shape t ! d) dims"
    and "elem a idx = elem t (map (\<lambda>m. idx ! position m dims) [0..<length dims])"
  using assms by (auto simp: permute_def split: if_splits)

lemma permute_201:
  assumes "permute vol [2, 0, 1] = Inr a"
  shows "length (shape vol) = 3"
    and "shape a = [shape vol ! 2, shape vol ! 0, shape vol ! 1]"
    and "plane a [z] = slice_of vol z"
proof -
  show "length (shape vol) = 3"
    using permute_Inr(1) [OF assms] by simp
  show sh: "shape a = [shape vol ! 2, shape vol ! 0, shape vol ! 1]"
    using permute_Inr(2) [OF assms] by simp
  have "elem a ([z] @ ij) = elem vol [ij ! 0, ij ! 1, z]" for ij
    using permute_Inr(3) [OF assms, of "[z] @ ij"] by (simp add: position_def numeral_2_eq_2)
  then show "plane a [z] = slice_of vol z"
    by (simp add: sh plane_def slice_of_def)
qed

lemma permute_120:
  assumes "permute b [1, 2, 0] = Inr r"
  shows "shape r = [shape b ! 1, shape b ! 2, shape b ! 0]"
    and "elem r [x, y, z] = elem b [z, x, y]"
  using permute_Inr(2) [OF assms] permute_Inr(3) [OF assms, of "[x, y, z]"]
  by (simp_all add: position_def numeral_2_eq_2)

lemma tv_rotate_elem:
  assumes "tv_rotate rot2d a angle = Inr b"
  shows "shape b = shape a"
    and "elem b [z, x, y] = elem (rot2d (plane a [z]) angle) [x, y]"
  using assms by (auto simp: tv_rotate_def split: if_splits)

lemma read_image_3d_rotated:
  assumes "read_image_3d rot2d fs (Some p) True = Inr r"
  shows "\<exists>vol. nibabel_load fs p = Inr vol \<and> length (shape vol) = 3 \<and> shape r = shape vol \<and>
           (\<forall>x y z. elem r [x, y, z] = elem (rot2d (slice_of vol z) 90) [x, y])"
proof -
  from assms obtain vol a b where
    ld: "nibabel_load fs p = Inr vol"
    and pa: "permute vol [2, 0, 1] = Inr a"
    and rb: "tv_rotate rot2d a 90 = Inr b"
    and pr: "permute b [1, 2, 0] = Inr r"
    by (auto simp: read_image_3d_def split: if_splits sum.splits)
  have len: "length (shape vol) = 3" by (rule permute_201(1) [OF pa])
  then obtain s0 s1 s2 where sv: "shape vol = [s0, s1, s2]"
    using length3 by blast
  have "shape r = shape vol"
    using permute_120(1) [OF pr] tv_rotate_elem(1) [OF rb] permute_201(2) [OF pa] sv by simp
  moreover have "elem r [x, y, z] = elem (rot2d (slice_of vol z) 90) [x, y]" for x y z
    using permute_120(2) [OF pr] tv_rotate_elem(2) [OF rb] permute_201(3) [OF pa] by simp
  ultimately show ?thesis using ld len by blast
qed

lemma index_dim2_elem:
  assumes "index_dim2 t i = Inr s"
  shows "elem s [x, y] = elem t [x, y, i]" and "i < shape t ! 2"
  using assms by (auto simp: index_dim2_def split: if_splits)

lemma read_scan_and_mask_rotated:
  assumes "read_scan_and_mask rot2d fs scans masks_d file = Inr (n, pairs)"
  shows "\<exists>scan msk.
      nibabel_load fs (os_path_join scans file) = Inr scan \<and>
      nibabel_load fs (os_path_join masks_d file) = Inr msk \<and>
      length pairs = n \<and>
      (\<forall>i<n. i < shape scan ! 2 \<and> i < shape msk ! 2 \<and>
         (\<forall>x y. elem (fst (pairs ! i)) [x, y] = elem (rot2d (slice_of scan i) 90) [x, y] \<and>
                elem (snd (pairs ! i)) [x, y] = elem (rot2d (slice_of msk i) 90) [x, y]))"
proof -
  from assms obtain rs rm where
    s: "read_image_3d rot2d fs (Some (os_path_join scans file)) True = Inr rs"
    and m: "read_image_3d rot2d fs (Some (os_path_join masks_d file)) True = Inr rm"
    and tr: "traverse (\<lambda>i.
              (case index_dim2 rs i of
                 Inl e \<Rightarrow> Inl e
               | Inr s \<Rightarrow> (case index_dim2 rm i of Inl e \<Rightarrow> Inl e | Inr m \<Rightarrow> Inr (s, m))))
             [0..<n] = Inr pairs"
    by (auto simp: read_scan_and_mask_def split: sum.splits)
  from read_image_3d_rotated [OF s] obtain scan where
    scan: "nibabel_load fs (os_path_join scans file) = Inr scan" "shape rs = shape scan"
      "\<forall>x y z. elem rs [x, y, z] = elem (rot2d (slice_of scan z) 90) [x, y]" by blast
  from read_image_3d_rotated [OF m] obtain msk where
    msk: "nibabel_load fs (os_path_join masks_d file) = Inr msk" "shape rm = shape msk"
      "\<forall>x y z. elem rm [x, y, z] = elem (rot2d (slice_of msk z) 90) [x, y]" by blast
  have len: "length pairs = n" using traverse_length [OF tr] by simp
  have "i < shape scan ! 2 \<and> i < shape msk ! 2 \<and>
         (\<forall>x y. elem (fst (pairs ! i)) [x, y] = elem (rot2d (slice_of scan i) 90) [x, y] \<and>
                elem (snd (pairs ! i)) [x, y] = elem (rot2d (slice_of msk i) 90) [x, y])" if "i < n" for i
  proof -
    from traverse_nth [OF tr, of i] that obtain a b where
      a: "index_dim2 rs i = Inr a" and b: "index_dim2 rm i = Inr b" and p: "pairs ! i = (a, b)"
      by (auto split: sum.splits)
    show ?thesis
      using index_dim2_elem [OF a] index_dim2_elem [OF b] scan(2,3) msk(2,3) p by simp
  qed
  with scan(1) msk(1) len show ?thesis by blast
qed


lemma nth_concat_source:
  "k < length (concat xss) \<Longrightarrow> \<exists>j i. j < length xss \<and> i < length (xss ! j) \<and> concat xss ! k = xss ! j ! i"
proof (induction xss arbitrary: k)
  case Nil
  then show ?case by simp
next
  case (Cons xs xss)
  show ?case
  proof (cases "k < length xs")
    case True
    then have "0 < length (xs # xss) \<and> k < length ((xs # xss) ! 0) \<and>
        concat (xs # xss) ! k = (xs # xss) ! 0 ! k"
      by (simp add: nth_append)
    then show ?thesis by blast
  next
    case False
    with Cons.prems have "k - length xs < length (concat xss)" by auto
    from Cons.IH [OF this] obtain j i where
      "j < length xss" "i < length (xss ! j)" "concat xss ! (k - length xs) = xss ! j ! i" by blast
    with False have "Suc j < length (xs # xss) \<and> i < length ((xs # xss) ! Suc j) \<and>
        concat (xs # xss) ! k = (xs # xss) ! Suc j ! i"
      by (simp add: nth_append)
    then show ?thesis by blast
  qed
qed

lemma init_parts:
  assumes "PhysioNetICHDataset_init py_float rot2d fs root_dir windows transform = Inr ds"
  obtains volumes where
    "traverse (read_scan_and_mask rot2d fs (scans_dir ds) (masks_dir ds)) (physio_filenames ds) = Inr volumes"
    "slices ds = map fst (concat (map snd volumes))"
    "masks ds = map snd (concat (map snd volumes))"
  using assms unfolding PhysioNetICHDataset_init_def Let_def
  by (auto split: sum.splits)

text \<open>
  C9: when \<^verbatim>\<open>_read_image_3d\<close> is called with \<^verbatim>\<open>do_rotate\<close> set, every slice of the
  result is the loaded volume's slice of the same index, rotated by 90 degrees by the one
  map of a plane that \<^verbatim>\<open>rotate\<close> applies. The PhysioNet reader loads the scan and its
  mask with the same setting, so the \<open>k\<close>-th stored slice and the \<open>k\<close>-th stored mask are
  the same slice index of the scan and the mask of one file under that same rotation;
  when the rotation moves coordinates and the scan and the mask have equal planes, the
  entries of the two at a coordinate after the rotation come from one and the same
  coordinate before it.
\<close>

theorem rotation_applied_alike:
  "(read_image_3d rot2d fs (Some p) True = Inr r \<longrightarrow>
      (\<exists>vol. nibabel_load fs p = Inr vol \<and> shape r = shape vol \<and>
         (\<forall>x y z. elem r [x, y, z] = elem (rot2d (slice_of vol z) 90) [x, y]))) \<and>
   (PhysioNetICHDataset_init py_float rot2d fs root_dir windows transform = Inr ds \<longrightarrow>
      length (masks ds) = length (slices ds) \<and>
      (\<forall>k<length (slices ds). \<exists>file i scan msk.
         file \<in> set (physio_filenames ds) \<and>
         nibabel_load fs (os_path_join (scans_dir ds) file) = Inr scan \<and>
         nibabel_load fs (os_path_join (masks_dir ds) file) = Inr msk \<and>
         i < shape scan ! 2 \<and> i < shape msk ! 2 \<and>
         (\<forall>x y. elem (slices ds ! k) [x, y] = elem (rot2d (slice_of scan i) 90) [x, y] \<and>
                elem (masks ds ! k) [x, y] = elem (rot2d (slice_of msk i) 90) [x, y]) \<and>
         (\<forall>\<sigma>. (\<forall>pl ij. elem (rot2d pl 90) ij = elem pl (\<sigma> (shape pl) ij)) \<and>
               shape scan ! 0 = shape msk ! 0 \<and> shape scan ! 1 = shape msk ! 1 \<longrightarrow>
            (\<forall>x y. \<exists>x' y'. elem (slices ds ! k) [x, y] = elem scan [x', y', i] \<and>
                           elem (masks ds ! k) [x, y] = elem msk [x', y', i]))))"
proof (intro conjI impI)
  assume "read_image_3d rot2d fs (Some p) True = Inr r"
  from read_image_3d_rotated [OF this]
  show "\<exists>vol. nibabel_load fs p = Inr vol \<and> shape r = shape vol \<and>
         (\<forall>x y z. elem r [x, y, z] = elem (rot2d (slice_of vol z) 90) [x, y])"
    by blast
next
  assume init: "PhysioNetICHDataset_init py_float rot2d fs root_dir windows transform = Inr ds"
  then obtain volumes where
    tr: "traverse (read_scan_and_mask rot2d fs (scans_dir ds) (masks_dir ds)) (physio_filenames ds) = Inr volumes"
    and sl: "slices ds = map fst (concat (map snd volumes))"
    and ms: "masks ds = map snd (concat (map snd volumes))"
    by (rule init_parts)
  show "length (masks ds) = length (slices ds)"
    by (simp add: sl ms)
next
  assume init: "PhysioNetICHDataset_init py_float rot2d fs root_dir windows transform = Inr ds"
  then obtain volumes where
    tr: "traverse (read_scan_and_mask rot2d fs (scans_dir ds) (masks_dir ds)) (physio_filenames ds) = Inr volumes"
    and sl: "slices ds = map fst (concat (map snd volumes))"
    and ms: "masks ds = map snd (concat (map snd volumes))"
    by (rule init_parts)
  have len: "length volumes = length (physio_filenames ds)"
    by (rule traverse_length [OF tr])
  show "\<forall>k<length (slices ds). \<exists>file i scan msk.
         file \<in> set (physio_filenames ds) \<and>
         nibabel_load fs (os_path_join (scans_dir ds) file) = Inr scan \<and>
         nibabel_load fs (os_path_join (masks_dir ds) file) = Inr msk \<and>
         i < shape scan ! 2 \<and> i < shape msk ! 2 \<and>
         (\<forall>x y. elem (slices ds ! k) [x, y] = elem (rot2d (slice_of scan i) 90) [x, y] \<and>
                elem (masks ds ! k) [x, y] = elem (rot2d (slice_of msk i) 90) [x, y]) \<and>
         (\<forall>\<sigma>. (\<forall>pl ij. elem (rot2d pl 90) ij = elem pl (\<sigma> (shape pl) ij)) \<and>
               shape scan ! 0 = shape msk ! 0 \<and> shape scan ! 1 = shape msk ! 1 \<longrightarrow>
            (\<forall>x y. \<exists>x' y'. elem (slices ds ! k) [x, y] = elem scan [x', y', i] \<and>
                           elem (masks ds ! k) [x, y] = elem msk [x', y', i]))"
  proof (intro allI impI)
    fix k
    assume "k < length (slices ds)"
    then have k: "k < length (concat (map snd volumes))" by (simp add: sl)
    from nth_concat_source [OF k] obtain j i where
      j: "j < length volumes" and i: "i < length (snd (volumes ! j))"
      and src: "concat (map snd volumes) ! k = snd (volumes ! j) ! i"
      by auto
    obtain n pairs where v: "volumes ! j = (n, pairs)" by (cases "volumes ! j")
    define fname where "fname = physio_filenames ds ! j"
    have mem: "fname \<in> set (physio_filenames ds)"
      using j len by (simp add: fname_def)
    have "read_scan_and_mask rot2d fs (scans_dir ds) (masks_dir ds) fname = Inr (n, pairs)"
      using traverse_nth [OF tr, of j] j len v by (simp add: fname_def)
    from read_scan_and_mask_rotated [OF this] obtain scan msk where
      scan: "nibabel_load fs (os_path_join (scans_dir ds) fname) = Inr scan"
      and msk: "nibabel_load fs (os_path_join (masks_dir ds) fname) = Inr msk"
      and n: "length pairs = n"
      and each: "\<forall>i<n. i < shape scan ! 2 \<and> i < shape msk ! 2 \<and>
         (\<forall>x y. elem (fst (pairs ! i)) [x, y] = elem (rot2d (slice_of scan i) 90) [x, y] \<and>
                elem (snd (pairs ! i)) [x, y] = elem (rot2d (slice_of msk i) 90) [x, y])"
      by blast
    from i v n have "i < n" by simp
    have sk: "slices ds ! k = fst (pairs ! i)" and mk: "masks ds ! k = snd (pairs ! i)"
      using k src v by (simp_all add: sl ms)
    from each \<open>i < n\<close> have rng: "i < shape scan ! 2" "i < shape msk ! 2"
      and rot: "\<forall>x y. elem (slices ds ! k) [x, y] = elem (rot2d (slice_of scan i) 90) [x, y] \<and>
                elem (masks ds ! k) [x, y] = elem (rot2d (slice_of msk i) 90) [x, y]"
      by (simp_all add: sk mk)
    have coord: "\<forall>x y. \<exists>x' y'. elem (slices ds ! k) [x, y] = elem scan [x', y', i] \<and>
                           elem (masks ds ! k) [x, y] = elem msk [x', y', i]"
      if "(\<forall>pl ij. elem (rot2d pl 90) ij = elem pl (\<sigma> (shape pl) ij)) \<and>
               shape scan ! 0 = shape msk ! 0 \<and> shape scan ! 1 = shape msk ! 1" for \<sigma>
    proof (intro allI)
      fix x y
      let ?c = "\<sigma> [shape scan ! 0, shape scan ! 1] [x, y]"
      from that rot have "elem (slices ds ! k) [x, y] = elem scan [?c ! 0, ?c ! 1, i]"
        and "elem (masks ds ! k) [x, y] = elem msk [?c ! 0, ?c ! 1, i]"
        by (simp_all add: slice_of_def)
      then show "\<exists>x' y'. elem (slices ds ! k) [x, y] = elem scan [x', y', i] \<and>
                           elem (masks ds ! k) [x, y] = elem msk [x', y', i]"
        by blast
    qed
    show "\<exists>file i scan msk.
         file \<in> set (physio_filenames ds) \<and>
         nibabel_load fs (os_path_join (scans_dir ds) file) = Inr scan \<and>
         nibabel_load fs (os_path_join (masks_dir ds) file) = Inr msk \<and>
         i < shape scan ! 2 \<and> i < shape msk ! 2 \<and>
         (\<forall>x y. elem (slices ds ! k) [x, y] = elem (rot2d (slice_of scan i) 90) [x, y] \<and>
                elem (masks ds ! k) [x, y] = elem (rot2d (slice_of msk i) 90) [x, y]) \<and>
         (\<forall>\<sigma>. (\<forall>pl ij. elem (rot2d pl 90) ij = elem pl (\<sigma> (shape pl) ij)) \<and>
               shape scan ! 0 = shape msk ! 0 \<and> shape scan ! 1 = shape msk ! 1 \<longrightarrow>
            (\<forall>x y. \<exists>x' y'. elem (slices ds ! k) [x, y] = elem scan [x', y', i] \<and>
                           elem (masks ds ! k) [x, y] = elem msk [x', y', i]))"
      using mem scan msk rng rot coord by blast
  qed
qed


lemma example_loads:
  "nibabel_load example_physio_fs ''data/ct_scans/049.nii'' = Inr example_scan"
  "nibabel_load example_physio_fs ''data/masks/049.nii'' = Inr example_mask"
  "os_path_isfile example_physio_fs ''data/ct_scans/049.nii''"
  "os_path_isfile example_physio_fs ''data/masks/049.nii''"
  by (simp_all add: nibabel_load_def open_read_def os_path_isfile_def example_physio_fs_def)

lemma example_read_3d:
  "\<exists>r. read_image_3d example_rot2d example_physio_fs (Some ''data/ct_scans/049.nii'') True = Inr r"
  "\<exists>r. read_image_3d example_rot2d example_physio_fs (Some ''data/masks/049.nii'') True = Inr r"
  by (simp_all add: read_image_3d_def example_loads permute_def tv_rotate_def example_scan_def
      example_mask_def)

lemma example_labels_read:
  "\<exists>ls. read_labels example_py_float example_physio_fs ''data/hemorrhage_diagnosis_raw_ct.csv'' = Inr ls"
  by (simp add: read_labels_def open_csv_def open_read_def example_physio_fs_def csv_DictReader_def
      dict_row_def read_label_row_def PHYSIONET_SUBTYPES_def example_py_float_def)

lemma example_init:
  "\<exists>ds. PhysioNetICHDataset_init example_py_float example_rot2d example_physio_fs ''data'' None None =
      Inr ds"
proof -
  from example_read_3d obtain rs rm where
    rs: "read_image_3d example_rot2d example_physio_fs (Some ''data/ct_scans/049.nii'') True = Inr rs"
    and rm: "read_image_3d example_rot2d example_physio_fs (Some ''data/masks/049.nii'') True = Inr rm"
    by blast
  from read_image_3d_rotated [OF rs] have srs: "shape rs = [2, 2, 1]"
    by (simp add: example_loads example_scan_def)
  from read_image_3d_rotated [OF rm] have srm: "shape rm = [2, 2, 1]"
    by (simp add: example_loads example_mask_def)
  have "\<exists>v. read_scan_and_mask example_rot2d example_physio_fs ''data/ct_scans'' ''data/masks''
      ''049.nii'' = Inr v"
    by (simp add: read_scan_and_mask_def os_path_join_def rs rm shape_last_def srs srm index_dim2_def)
  then obtain v where v: "read_scan_and_mask example_rot2d example_physio_fs ''data/ct_scans''
      ''data/masks'' ''049.nii'' = Inr v" ..
  from example_labels_read obtain ls where
    ls: "read_labels example_py_float example_physio_fs ''data/hemorrhage_diagnosis_raw_ct.csv'' = Inr ls" ..
  have ld: "os_listdir example_physio_fs ''data/ct_scans'' = Inr [''049.nii'']"
    by (simp add: os_listdir_def example_physio_fs_def)
  have j: "os_path_join ''data'' ''ct_scans'' = ''data/ct_scans''"
    "os_path_join ''data'' ''masks'' = ''data/masks''"
    "os_path_join ''data'' ''hemorrhage_diagnosis_raw_ct.csv'' = ''data/hemorrhage_diagnosis_raw_ct.csv''"
    by (simp_all add: os_path_join_def)
  show ?thesis
    by (simp add: PhysioNetICHDataset_init_def Let_def j ld ls v)
qed

lemma example_init_fields:
  assumes "PhysioNetICHDataset_init example_py_float example_rot2d example_physio_fs ''data'' None None =
      Inr ds"
  shows "physio_filenames ds = [''049.nii'']" and "scans_dir ds = ''data/ct_scans''"
    and "masks_dir ds = ''data/masks''"
proof -
  have ld: "os_listdir example_physio_fs ''data/ct_scans'' = Inr [''049.nii'']"
    by (simp add: os_listdir_def example_physio_fs_def)
  have j: "os_path_join ''data'' ''ct_scans'' = ''data/ct_scans''"
    "os_path_join ''data'' ''masks'' = ''data/masks''"
    by (simp_all add: os_path_join_def)
  from assms show "physio_filenames ds = [''049.nii'']" and "scans_dir ds = ''data/ct_scans''"
    and "masks_dir ds = ''data/masks''"
    unfolding PhysioNetICHDataset_init_def Let_def j ld
    by (auto split: sum.splits)
qed

theorem rotation_applied_alike_witness:
  "(\<exists>r. read_image_3d example_rot2d example_physio_fs (Some ''data/ct_scans/049.nii'') True = Inr r \<and>
        shape r = [2, 2, 1] \<and> elem r [0, 0, 0] = Fin 1 \<and> elem r [1, 0, 0] = Fin 0) \<and>
   (\<exists>ds. PhysioNetICHDataset_init example_py_float example_rot2d example_physio_fs ''data'' None None =
        Inr ds \<and>
      length (masks ds) = length (slices ds) \<and>
      elem (slices ds ! 0) [0, 0] = Fin 1 \<and> elem (masks ds ! 0) [0, 0] = Fin 255 \<and>
      elem (slices ds ! 0) [1, 0] = Fin 0 \<and> elem (masks ds ! 0) [1, 0] = Fin 0)"
proof -
  from example_read_3d(1) obtain r where
    r: "read_image_3d example_rot2d example_physio_fs (Some ''data/ct_scans/049.nii'') True = Inr r" ..
  from example_init obtain ds where
    ds: "PhysioNetICHDataset_init example_py_float example_rot2d example_physio_fs ''data'' None None =
      Inr ds" ..
  note inst = rotation_applied_alike [of example_rot2d example_physio_fs "''data/ct_scans/049.nii''" r
      example_py_float "''data''" None None ds]
  from inst r have "shape r = shape example_scan \<and>
      (\<forall>x y z. elem r [x, y, z] = elem (example_rot2d (slice_of example_scan z) 90) [x, y])"
    by (auto simp: example_loads)
  then have first: "shape r = [2, 2, 1] \<and> elem r [0, 0, 0] = Fin 1 \<and> elem r [1, 0, 0] = Fin 0"
    by (simp add: example_scan_def example_rot2d_def slice_of_def)
  from inst ds have len: "length (masks ds) = length (slices ds)"
    and all: "\<forall>k<length (slices ds). \<exists>file i scan msk.
         file \<in> set (physio_filenames ds) \<and>
         nibabel_load example_physio_fs (os_path_join (scans_dir ds) file) = Inr scan \<and>
         nibabel_load example_physio_fs (os_path_join (masks_dir ds) file) = Inr msk \<and>
         i < shape scan ! 2 \<and> i < shape msk ! 2 \<and>
         (\<forall>x y. elem (slices ds ! k) [x, y] = elem (example_rot2d (slice_of scan i) 90) [x, y] \<and>
                elem (masks ds ! k) [x, y] = elem (example_rot2d (slice_of msk i) 90) [x, y])"
    by blast+
  have pos: "0 < length (slices ds)"
  proof -
    from ds obtain volumes where
      tr: "traverse (read_scan_and_mask example_rot2d example_physio_fs (scans_dir ds) (masks_dir ds))
             (physio_filenames ds) = Inr volumes"
      and sl: "slices ds = map fst (concat (map snd volumes))"
      by (rule init_parts)
    from tr obtain v where v: "volumes = [v]"
      and rv: "read_scan_and_mask example_rot2d example_physio_fs ''data/ct_scans'' ''data/masks''
         ''049.nii'' = Inr v"
      by (auto simp: example_init_fields [OF ds] split: sum.splits)
    obtain n pairs where np: "v = (n, pairs)" by (cases v)
    from rv np have "n = 1"
      using read_image_3d_rotated [of example_rot2d example_physio_fs "''data/ct_scans/049.nii''"]
      by (auto simp: read_scan_and_mask_def os_path_join_def shape_last_def example_loads example_scan_def
          split: sum.splits if_splits)
    with read_scan_and_mask_rotated [OF rv [unfolded np]] have "length pairs = 1" by auto
    with sl v np show ?thesis by simp
  qed
  from all [rule_format, OF pos] obtain fl_name i scan msk where
    mem: "fl_name \<in> set (physio_filenames ds)"
    and scan: "nibabel_load example_physio_fs (os_path_join (scans_dir ds) fl_name) = Inr scan"
    and msk: "nibabel_load example_physio_fs (os_path_join (masks_dir ds) fl_name) = Inr msk"
    and i: "i < shape scan ! 2"
    and rot: "\<forall>x y. elem (slices ds ! 0) [x, y] = elem (example_rot2d (slice_of scan i) 90) [x, y] \<and>
                elem (masks ds ! 0) [x, y] = elem (example_rot2d (slice_of msk i) 90) [x, y]"
    by blast
  from mem have fn: "fl_name = ''049.nii''" by (simp add: example_init_fields [OF ds])
  from scan have sc: "scan = example_scan"
    by (simp add: fn example_init_fields [OF ds] os_path_join_def example_loads)
  from msk have mk: "msk = example_mask"
    by (simp add: fn example_init_fields [OF ds] os_path_join_def example_loads)
  from i have i0: "i = 0" by (simp add: sc example_scan_def)
  from rot have "elem (slices ds ! 0) [0, 0] = Fin 1 \<and> elem (masks ds ! 0) [0, 0] = Fin 255 \<and>
      elem (slices ds ! 0) [1, 0] = Fin 0 \<and> elem (masks ds ! 0) [1, 0] = Fin 0"
    by (simp add: sc mk i0 example_scan_def example_mask_def example_rot2d_def slice_of_def)
  with r first ds len show ?thesis by blast
qed

section \<open>Properties of the split builder\<close>

lemma os_path_join_relative:
  "b \<noteq> [] \<Longrightarrow> hd b \<noteq> CHR ''/'' \<Longrightarrow>
   os_path_join a b = (if a = [] \<or> last a = CHR ''/'' then a else a @ ''/'') @ b"
  by (simp add: os_path_join_def)

lemma os_path_join_inject:
  "b \<noteq> [] \<Longrightarrow> hd b \<noteq> CHR ''/'' \<Longrightarrow> c \<noteq> [] \<Longrightarrow> hd c \<noteq> CHR ''/'' \<Longrightarrow>
   os_path_join a b = os_path_join a c \<longleftrightarrow> b = c"
  by (simp add: os_path_join_relative)

lemma artifact_paths_distinct:
  "os_path_join root_dir ''train_file_split'' \<noteq> os_path_join root_dir ''validation_file_split''"
  "os_path_join root_dir ''train_file_split'' \<noteq> os_path_join root_dir ''train_label_split''"
  "os_path_join root_dir ''train_file_split'' \<noteq> os_path_join root_dir ''validation_label_split''"
  "os_path_join root_dir ''validation_file_split'' \<noteq> os_path_join root_dir ''train_label_split''"
  "os_path_join root_dir ''validation_file_split'' \<noteq> os_path_join root_dir ''validation_label_split''"
  "os_path_join root_dir ''train_label_split'' \<noteq> os_path_join root_dir ''validation_label_split''"
  by (simp_all add: os_path_join_inject)

text \<open>
  C5: if all four persisted artifacts exist and \<^verbatim>\<open>override\<close> is false, the split builder
  returns what loading the four artifacts gives, the stored collections themselves when
  they are pickled objects. It leaves the file system as it was, and its only
  operating-system calls are the four existence tests and the four opens for reading:
  it does not list the source directory, does not open the label table and opens
  nothing for writing.
\<close>

theorem persisted_split_returned:
  assumes "list_all (os_path_isfile fs) (artifact_paths root_dir)"
  shows "rsna_train_valid_split ceil_mul permutation py_float fs root_dir validation_size random_state False =
      (load_split fs (os_path_join root_dir ''train_file_split'')
         (os_path_join root_dir ''train_label_split'')
         (os_path_join root_dir ''validation_file_split'')
         (os_path_join root_dir ''validation_label_split''),
       fs,
       [Stat (os_path_join root_dir ''train_file_split''),
        Stat (os_path_join root_dir ''validation_file_split''),
        Stat (os_path_join root_dir ''train_label_split''),
        Stat (os_path_join root_dir ''validation_label_split''),
        OpenRead (os_path_join root_dir ''train_file_split''),
        OpenRead (os_path_join root_dir ''train_label_split''),
        OpenRead (os_path_join root_dir ''validation_file_split''),
        OpenRead (os_path_join root_dir ''validation_label_split'')]) \<and>
     (fs (os_path_join root_dir ''train_file_split'') = Some (File (Pickle train_filenames)) \<and>
      fs (os_path_join root_dir ''train_label_split'') = Some (File (Pickle train_labels)) \<and>
      fs (os_path_join root_dir ''validation_file_split'') = Some (File (Pickle validation_filenames)) \<and>
      fs (os_path_join root_dir ''validation_label_split'') = Some (File (Pickle validation_labels)) \<longrightarrow>
      load_split fs (os_path_join root_dir ''train_file_split'')
         (os_path_join root_dir ''train_label_split'')
         (os_path_join root_dir ''validation_file_split'')
         (os_path_join root_dir ''validation_label_split'') =
        Inr (train_filenames, train_labels, validation_filenames, validation_labels))"
  using assms
  by (simp add: rsna_train_valid_split_def Let_def artifact_paths_def load_split_def pickle_load_def
      open_read_def)

lemma example_joins:
  "os_path_join ''data'' ''train_file_split'' = ''data/train_file_split''"
  "os_path_join ''data'' ''train_label_split'' = ''data/train_label_split''"
  "os_path_join ''data'' ''validation_file_split'' = ''data/validation_file_split''"
  "os_path_join ''data'' ''validation_label_split'' = ''data/validation_label_split''"
  "os_path_join ''data'' ''stage_2_train'' = ''data/stage_2_train''"
  "os_path_join ''data'' ''stage_2_train.csv'' = ''data/stage_2_train.csv''"
  by (simp_all add: os_path_join_def)

theorem persisted_split_returned_witness:
  "rsna_train_valid_split example_ceil_mul example_permutation example_py_float example_cached_fs ''data'' (1 / 20) 42 False =
     (Inr (StrList [''ID_a.dcm''], Array2 [[Fin 0, Fin 0, Fin 0, Fin 0, Fin 0, Fin 0]],
           StrList [''ID_b.dcm''], Array2 [[Fin 0, Fin 1, Fin 0, Fin 0, Fin 0, Fin 1]]),
      example_cached_fs,
      [Stat ''data/train_file_split'', Stat ''data/validation_file_split'',
       Stat ''data/train_label_split'', Stat ''data/validation_label_split'',
       OpenRead ''data/train_file_split'', OpenRead ''data/train_label_split'',
       OpenRead ''data/validation_file_split'', OpenRead ''data/validation_label_split''])"
proof -
  have ex: "list_all (os_path_isfile example_cached_fs) (artifact_paths ''data'')"
    by (simp add: artifact_paths_def example_joins os_path_isfile_def example_cached_fs_def)
  have c: "example_cached_fs (os_path_join ''data'' ''train_file_split'') =
        Some (File (Pickle (StrList [''ID_a.dcm''])))"
      "example_cached_fs (os_path_join ''data'' ''train_label_split'') =
        Some (File (Pickle (Array2 [[Fin 0, Fin 0, Fin 0, Fin 0, Fin 0, Fin 0]])))"
      "example_cached_fs (os_path_join ''data'' ''validation_file_split'') =
        Some (File (Pickle (StrList [''ID_b.dcm''])))"
      "example_cached_fs (os_path_join ''data'' ''validation_label_split'') =
        Some (File (Pickle (Array2 [[Fin 0, Fin 1, Fin 0, Fin 0, Fin 0, Fin 1]])))"
    by (simp_all add: example_joins example_cached_fs_def)
  from persisted_split_returned [OF ex, of example_ceil_mul example_permutation example_py_float "1 / 20" 42
      "StrList [''ID_a.dcm'']" "Array2 [[Fin 0, Fin 0, Fin 0, Fin 0, Fin 0, Fin 0]]"
      "StrList [''ID_b.dcm'']" "Array2 [[Fin 0, Fin 1, Fin 0, Fin 0, Fin 0, Fin 1]]"] c
  show ?thesis by (simp add: example_joins)
qed

lemma traverse_Inr_all: "traverse f xs = Inr ys \<Longrightarrow> x \<in> set xs \<Longrightarrow> \<exists>y. f x = Inr y"
  by (induction xs arbitrary: ys) (auto split: sum.splits)

lemma traverse_all_Inr: "(\<And>x. x \<in> set xs \<Longrightarrow> \<exists>y. f x = Inr y) \<Longrightarrow> \<exists>ys. traverse f xs = Inr ys"
proof (induction xs)
  case Nil
  then show ?case by simp
next
  case (Cons x xs)
  from Cons.prems [of x] obtain y where "f x = Inr y" by auto
  moreover from Cons.IH Cons.prems obtain ys where "traverse f xs = Inr ys" by auto
  ultimately show ?case by simp
qed

lemma build_labels_Inl:
  assumes "build_labels labels_dict names = Inl e"
  shows "\<exists>filename subtype. filename \<in> set names \<and> subtype \<in> set RSNA_SUBTYPES \<and>
           labels_dict (label_key filename subtype) = None \<and> e = KeyError (label_key filename subtype)"
proof -
  from traverse_Inl [OF assms [unfolded build_labels_def]] obtain filename where
    f: "filename \<in> set names"
    and inner: "traverse (\<lambda>subtype. dict_getitem labels_dict (label_key filename subtype)) RSNA_SUBTYPES = Inl e"
    by blast
  from traverse_Inl [OF inner] obtain subtype where
    "subtype \<in> set RSNA_SUBTYPES" "dict_getitem labels_dict (label_key filename subtype) = Inl e"
    by blast
  with f show ?thesis
    by (auto simp: dict_getitem_def split: option.splits)
qed

lemma build_labels_Inr:
  assumes "build_labels labels_dict names = Inr labels"
  shows "length labels = length names"
    and "\<And>filename subtype. filename \<in> set names \<Longrightarrow> subtype \<in> set RSNA_SUBTYPES \<Longrightarrow>
           labels_dict (label_key filename subtype) \<noteq> None"
    and "\<And>i. i < length names \<Longrightarrow>
           map Some (labels ! i) = map (\<lambda>subtype. labels_dict (label_key (names ! i) subtype)) RSNA_SUBTYPES"
proof -
  show "length labels = length names"
    using assms unfolding build_labels_def by (rule traverse_length)
  show "labels_dict (label_key filename subtype) \<noteq> None"
    if "filename \<in> set names" "subtype \<in> set RSNA_SUBTYPES" for filename subtype
  proof -
    from traverse_Inr_all [OF assms [unfolded build_labels_def] that(1)] obtain row where
      "traverse (\<lambda>subtype. dict_getitem labels_dict (label_key filename subtype)) RSNA_SUBTYPES = Inr row"
      by blast
    from traverse_Inr_all [OF this that(2)] show ?thesis
      by (auto simp: dict_getitem_def split: option.splits)
  qed
  show "map Some (labels ! i) = map (\<lambda>subtype. labels_dict (label_key (names ! i) subtype)) RSNA_SUBTYPES"
    if "i < length names" for i
  proof -
    from traverse_nth [OF assms [unfolded build_labels_def] that]
    have row: "traverse (\<lambda>subtype. dict_getitem labels_dict (label_key (names ! i) subtype)) RSNA_SUBTYPES =
        Inr (labels ! i)" .
    have "length (labels ! i) = length RSNA_SUBTYPES" by (rule traverse_length [OF row])
    moreover have "Some (labels ! i ! k) = labels_dict (label_key (names ! i) (RSNA_SUBTYPES ! k))"
      if "k < length RSNA_SUBTYPES" for k
      using traverse_nth [OF row that] by (auto simp: dict_getitem_def split: option.splits)
    ultimately show ?thesis
      by (auto intro!: nth_equalityI)
  qed
qed


lemma isfile_all_fst: "fst (isfile_all fs ps) = list_all (os_path_isfile fs) ps"
  by (induction ps) auto

lemma train_test_split_error:
  "train_test_split ceil_mul permutation xs ys test_size random_state = Inl e \<Longrightarrow> \<exists>m. e = ValueError m"
  by (auto simp: train_test_split_def validate_shuffle_split_def Let_def split: if_splits sum.splits)

lemma open_write_error: "open_write fs p = Inl e \<Longrightarrow> e \<noteq> KeyError k"
  by (auto simp: open_write_def split: option.splits node.splits)

lemma open_all_error: "open_all fs ps = (Inl e, fs1, evs) \<Longrightarrow> e \<noteq> KeyError k"
proof (induction ps arbitrary: fs fs1 evs)
  case Nil
  then show ?case by simp
next
  case (Cons p ps)
  show ?case
  proof (cases "open_write fs p")
    case (Inl e')
    with Cons.prems show ?thesis by (auto dest: open_write_error)
  next
    case (Inr fs')
    with Cons.prems obtain evs' where "open_all fs' ps = (Inl e, fs1, evs')"
      by (auto split: prod.splits)
    from Cons.IH [OF this] show ?thesis .
  qed
qed

lemma rebuild_result:
  assumes "override \<or> \<not> list_all (os_path_isfile fs) (artifact_paths root_dir)"
  shows "fst (rsna_train_valid_split ceil_mul permutation py_float fs root_dir validation_size random_state override) =
     (case compute_split ceil_mul permutation py_float fs root_dir validation_size random_state of
        Inl e \<Rightarrow> Inl e
      | Inr (train_filenames, validation_filenames, train_labels, validation_labels) \<Rightarrow>
          (case fst (open_all fs [os_path_join root_dir ''train_file_split'',
                                  os_path_join root_dir ''train_label_split'',
                                  os_path_join root_dir ''validation_file_split'',
                                  os_path_join root_dir ''validation_label_split'']) of
             Inl e \<Rightarrow> Inl e
           | Inr _ \<Rightarrow> Inr (StrList train_filenames, Array2 train_labels,
                           StrList validation_filenames, Array2 validation_labels)))"
proof -
  have guard: "\<not> (fst (isfile_all fs (artifact_paths root_dir)) \<and> \<not> override)"
    using assms by (auto simp: isfile_all_fst)
  show ?thesis
    unfolding rsna_train_valid_split_def Let_def
    using guard [unfolded artifact_paths_def]
    by (simp only: if_False split: sum.splits prod.splits) (auto split: sum.splits prod.splits)
qed

text \<open>
  C6: on the rebuild path, with the directory listed and the label table read, the split
  builder fails with \<^verbatim>\<open>KeyError\<close> (the spec's \<^verbatim>\<open>MissingLabelError\<close>) for a key the table
  lacks if some listed file, after the denylist is removed, lacks the row of one of its
  six subtypes; when every such file has its six rows, the construction of the labels
  succeeds with the six labels of each file in order, and the builder raises no
  \<^verbatim>\<open>KeyError\<close>.
\<close>

theorem missing_label_raises:
  assumes "override \<or> \<not> list_all (os_path_isfile fs) (artifact_paths root_dir)"
    and "os_listdir fs (os_path_join root_dir ''stage_2_train'') = Inr listing"
    and "open_csv fs (os_path_join root_dir ''stage_2_train.csv'') = Inr rows"
    and "read_labels_dict py_float (tl rows) Map.empty = Inr labels_dict"
  shows "((\<exists>filename \<in> set (remove_corrupted corrupted_files listing). \<exists>subtype \<in> set RSNA_SUBTYPES.
             labels_dict (label_key filename subtype) = None) \<longrightarrow>
          (\<exists>key. labels_dict key = None \<and>
             fst (rsna_train_valid_split ceil_mul permutation py_float fs root_dir validation_size random_state
                    override) = Inl (KeyError key))) \<and>
         ((\<forall>filename \<in> set (remove_corrupted corrupted_files listing). \<forall>subtype \<in> set RSNA_SUBTYPES.
             labels_dict (label_key filename subtype) \<noteq> None) \<longrightarrow>
          (\<exists>labels. build_labels labels_dict (remove_corrupted corrupted_files listing) = Inr labels \<and>
             length labels = length (remove_corrupted corrupted_files listing) \<and>
             (\<forall>i<length labels. map Some (labels ! i) =
                map (\<lambda>subtype. labels_dict (label_key (remove_corrupted corrupted_files listing ! i) subtype))
                  RSNA_SUBTYPES)) \<and>
          (\<forall>key. fst (rsna_train_valid_split ceil_mul permutation py_float fs root_dir validation_size random_state
                    override) \<noteq> Inl (KeyError key)))"
proof (intro conjI impI)
  let ?names = "remove_corrupted corrupted_files listing"
  let ?run = "fst (rsna_train_valid_split ceil_mul permutation py_float fs root_dir validation_size random_state
                    override)"
  have cs: "compute_split ceil_mul permutation py_float fs root_dir validation_size random_state =
      (case build_labels labels_dict ?names of
         Inl e \<Rightarrow> Inl e
       | Inr labels \<Rightarrow> train_test_split ceil_mul permutation ?names labels validation_size random_state)"
    using assms(2-4) by (simp add: compute_split_def)
  {
    assume "\<exists>filename \<in> set ?names. \<exists>subtype \<in> set RSNA_SUBTYPES.
             labels_dict (label_key filename subtype) = None"
    then obtain filename subtype where miss: "filename \<in> set ?names" "subtype \<in> set RSNA_SUBTYPES"
      "labels_dict (label_key filename subtype) = None" by blast
    show "\<exists>key. labels_dict key = None \<and> ?run = Inl (KeyError key)"
    proof (cases "build_labels labels_dict ?names")
      case (Inl e)
      from build_labels_Inl [OF Inl] obtain key where "labels_dict key = None" "e = KeyError key"
        by blast
      moreover from Inl have "?run = Inl e"
        by (simp add: rebuild_result [OF assms(1)] cs)
      ultimately show ?thesis by blast
    next
      case (Inr labels)
      from build_labels_Inr(2) [OF Inr miss(1,2)] miss(3) show ?thesis by simp
    qed
  }
  {
    assume present: "\<forall>filename \<in> set ?names. \<forall>subtype \<in> set RSNA_SUBTYPES.
             labels_dict (label_key filename subtype) \<noteq> None"
    have "\<exists>labels. build_labels labels_dict ?names = Inr labels"
      unfolding build_labels_def
    proof (rule traverse_all_Inr)
      fix filename
      assume f: "filename \<in> set ?names"
      show "\<exists>row. traverse (\<lambda>subtype. dict_getitem labels_dict (label_key filename subtype))
          RSNA_SUBTYPES = Inr row"
      proof (rule traverse_all_Inr)
        fix subtype
        assume "subtype \<in> set RSNA_SUBTYPES"
        with present f show "\<exists>v. dict_getitem labels_dict (label_key filename subtype) = Inr v"
          by (auto simp: dict_getitem_def split: option.splits)
      qed
    qed
    then obtain labels where bl: "build_labels labels_dict ?names = Inr labels" ..
    have len: "length labels = length ?names" by (rule build_labels_Inr(1) [OF bl])
    show "\<exists>labels. build_labels labels_dict ?names = Inr labels \<and>
             length labels = length ?names \<and>
             (\<forall>i<length labels. map Some (labels ! i) =
                map (\<lambda>subtype. labels_dict (label_key (?names ! i) subtype)) RSNA_SUBTYPES)"
      using bl len build_labels_Inr(3) [OF bl] by auto
    show "\<forall>key. ?run \<noteq> Inl (KeyError key)"
    proof (intro allI notI)
      fix key
      assume k: "?run = Inl (KeyError key)"
      show False
      proof (cases "train_test_split ceil_mul permutation ?names labels validation_size random_state")
        case (Inl e)
        with k have "e = KeyError key"
          by (simp add: rebuild_result [OF assms(1)] cs bl)
        with train_test_split_error [OF Inl] show False by auto
      next
        case (Inr parts)
        obtain a b c d where parts: "parts = (a, b, c, d)" by (cases parts)
        obtain res fs1 evs where oa: "open_all fs [os_path_join root_dir ''train_file_split'',
                                  os_path_join root_dir ''train_label_split'',
                                  os_path_join root_dir ''validation_file_split'',
                                  os_path_join root_dir ''validation_label_split''] = (res, fs1, evs)"
          by (cases "open_all fs [os_path_join root_dir ''train_file_split'',
                                  os_path_join root_dir ''train_label_split'',
                                  os_path_join root_dir ''validation_file_split'',
                                  os_path_join root_dir ''validation_label_split'']") auto
        from k Inr parts oa have "res = Inl (KeyError key)"
          by (auto simp: rebuild_result [OF assms(1)] cs bl split: sum.splits)
        with oa open_all_error show False by blast
      qed
    qed
  }
qed

lemma example_listing:
  "os_listdir example_split_fs ''data/stage_2_train'' =
     Inr [''ID_a.dcm'', ''ID_6431af929.dcm'', ''ID_b.dcm'', ''ID_c.dcm'']"
  "os_listdir example_missing_fs ''data/stage_2_train'' =
     Inr [''ID_a.dcm'', ''ID_6431af929.dcm'', ''ID_b.dcm'', ''ID_c.dcm'']"
  by (simp_all add: os_listdir_def example_split_fs_def example_missing_fs_def)

lemma example_names:
  "remove_corrupted corrupted_files [''ID_a.dcm'', ''ID_6431af929.dcm'', ''ID_b.dcm'', ''ID_c.dcm''] =
     [''ID_a.dcm'', ''ID_b.dcm'', ''ID_c.dcm'']"
  by (simp add: corrupted_files_def)

lemma example_csv:
  "open_csv example_split_fs ''data/stage_2_train.csv'' = Inr example_rows"
  "open_csv example_missing_fs ''data/stage_2_train.csv'' = Inr (take 13 example_rows)"
  by (simp_all add: open_csv_def open_read_def example_split_fs_def example_missing_fs_def)

lemma example_no_artifacts:
  "\<not> list_all (os_path_isfile example_split_fs) (artifact_paths ''data'')"
  "\<not> list_all (os_path_isfile example_missing_fs) (artifact_paths ''data'')"
  by (simp_all add: artifact_paths_def example_joins os_path_isfile_def example_split_fs_def
      example_missing_fs_def)

lemma example_dict:
  "\<exists>d. read_labels_dict example_py_float (tl example_rows) Map.empty = Inr d \<and>
       build_labels d [''ID_a.dcm'', ''ID_b.dcm'', ''ID_c.dcm''] =
         Inr [[Fin 0, Fin 0, Fin 0, Fin 0, Fin 0, Fin 1],
              [Fin 0, Fin 0, Fin 0, Fin 0, Fin 0, Fin 1],
              [Fin 0, Fin 0, Fin 0, Fin 0, Fin 0, Fin 1]]"
  by (simp add: example_rows_def RSNA_SUBTYPES_def example_py_float_def build_labels_def
      label_key_def dict_getitem_def)

lemma example_missing_dict:
  "\<exists>d. read_labels_dict example_py_float (tl (take 13 example_rows)) Map.empty = Inr d \<and>
       d (label_key ''ID_c.dcm'' ''epidural'') = None"
  by (simp add: example_rows_def RSNA_SUBTYPES_def example_py_float_def label_key_def)


theorem missing_label_raises_witness:
  "(\<exists>key. fst (rsna_train_valid_split example_ceil_mul example_permutation example_py_float example_missing_fs ''data''
                  (1 / 3) 43 False) = Inl (KeyError key)) \<and>
   (\<exists>labels d.
      read_labels_dict example_py_float (tl example_rows) Map.empty = Inr d \<and>
      build_labels d [''ID_a.dcm'', ''ID_b.dcm'', ''ID_c.dcm''] = Inr labels \<and>
      length labels = 3 \<and>
      map Some (labels ! 0) = map (\<lambda>subtype. d (label_key ''ID_a.dcm'' subtype)) RSNA_SUBTYPES) \<and>
   (\<forall>key. fst (rsna_train_valid_split example_ceil_mul example_permutation example_py_float example_split_fs ''data''
                  (1 / 3) 43 False) \<noteq> Inl (KeyError key))"
proof -
  from example_missing_dict obtain dm where
    dm: "read_labels_dict example_py_float (tl (take 13 example_rows)) Map.empty = Inr dm"
    and none: "dm (label_key ''ID_c.dcm'' ''epidural'') = None"
    by blast
  have rebuild_m: "False \<or> \<not> list_all (os_path_isfile example_missing_fs) (artifact_paths ''data'')"
    using example_no_artifacts(2) by simp
  have miss: "\<exists>filename \<in> set (remove_corrupted corrupted_files
        [''ID_a.dcm'', ''ID_6431af929.dcm'', ''ID_b.dcm'', ''ID_c.dcm'']).
      \<exists>subtype \<in> set RSNA_SUBTYPES. dm (label_key filename subtype) = None"
    using none by (auto simp: example_names RSNA_SUBTYPES_def)
  from missing_label_raises [OF rebuild_m example_listing(2) [folded example_joins(5)]
      example_csv(2) [folded example_joins(6)] dm, of example_ceil_mul example_permutation "1 / 3" 43] miss
  have first: "\<exists>key. fst (rsna_train_valid_split example_ceil_mul example_permutation example_py_float example_missing_fs
      ''data'' (1 / 3) 43 False) = Inl (KeyError key)"
    by blast
  from example_dict obtain d where
    d: "read_labels_dict example_py_float (tl example_rows) Map.empty = Inr d"
    and bl: "build_labels d [''ID_a.dcm'', ''ID_b.dcm'', ''ID_c.dcm''] =
         Inr [[Fin 0, Fin 0, Fin 0, Fin 0, Fin 0, Fin 1],
              [Fin 0, Fin 0, Fin 0, Fin 0, Fin 0, Fin 1],
              [Fin 0, Fin 0, Fin 0, Fin 0, Fin 0, Fin 1]]"
    by blast
  have rebuild: "False \<or> \<not> list_all (os_path_isfile example_split_fs) (artifact_paths ''data'')"
    using example_no_artifacts(1) by simp
  have present: "\<forall>filename \<in> set (remove_corrupted corrupted_files
        [''ID_a.dcm'', ''ID_6431af929.dcm'', ''ID_b.dcm'', ''ID_c.dcm'']).
      \<forall>subtype \<in> set RSNA_SUBTYPES. d (label_key filename subtype) \<noteq> None"
    using build_labels_Inr(2) [OF bl] by (simp add: example_names)
  from missing_label_raises [OF rebuild example_listing(1) [folded example_joins(5)]
      example_csv(1) [folded example_joins(6)] d, of example_ceil_mul example_permutation "1 / 3" 43] present
  obtain labels where
    l: "build_labels d (remove_corrupted corrupted_files
          [''ID_a.dcm'', ''ID_6431af929.dcm'', ''ID_b.dcm'', ''ID_c.dcm'']) = Inr labels"
      "length labels = length (remove_corrupted corrupted_files
          [''ID_a.dcm'', ''ID_6431af929.dcm'', ''ID_b.dcm'', ''ID_c.dcm''])"
      "\<forall>i<length labels. map Some (labels ! i) =
          map (\<lambda>subtype. d (label_key (remove_corrupted corrupted_files
            [''ID_a.dcm'', ''ID_6431af929.dcm'', ''ID_b.dcm'', ''ID_c.dcm''] ! i) subtype)) RSNA_SUBTYPES"
    and nokey: "\<forall>key. fst (rsna_train_valid_split example_ceil_mul example_permutation example_py_float example_split_fs
        ''data'' (1 / 3) 43 False) \<noteq> Inl (KeyError key)"
    by blast
  from l have "build_labels d [''ID_a.dcm'', ''ID_b.dcm'', ''ID_c.dcm''] = Inr labels \<and>
      length labels = 3 \<and>
      map Some (labels ! 0) = map (\<lambda>subtype. d (label_key ''ID_a.dcm'' subtype)) RSNA_SUBTYPES"
    by (simp add: example_names)
  with d first nokey show ?thesis by blast
qed

lemma remove_corrupted_set:
  "distinct listing \<Longrightarrow>
   distinct (remove_corrupted cs listing) \<and> set (remove_corrupted cs listing) = set listing - set cs"
proof (induction cs arbitrary: listing)
  case Nil
  then show ?case by simp
next
  case (Cons c cs)
  have d: "distinct (if c \<in> set listing then remove1 c listing else listing)"
    using Cons.prems by simp
  have s: "set (if c \<in> set listing then remove1 c listing else listing) = set listing - {c}"
    using Cons.prems by simp
  from Cons.IH [OF d] s show ?case by auto
qed

lemma train_test_split_disjoint:
  assumes "valid_permutation permutation" and "distinct xs"
    and "train_test_split ceil_mul permutation xs ys test_size random_state = Inr (a, b, c, d)"
  shows "set a \<inter> set b = {}" and "set a \<union> set b \<subseteq> set xs"
proof -
  let ?p = "permutation random_state (length xs)"
  from assms(3) obtain n_train n_test where
    a: "a = map (\<lambda>i. xs ! i) (take n_train (drop n_test ?p))"
    and b: "b = map (\<lambda>i. xs ! i) (take n_test ?p)"
    by (auto simp: train_test_split_def Let_def split: if_splits sum.splits)
  from assms(1) have dp: "distinct ?p" and sp: "set ?p = {0..<length xs}"
    by (simp_all add: valid_permutation_def)
  have "distinct (take n_test ?p @ drop n_test ?p)" using dp by simp
  then have disj: "set (take n_test ?p) \<inter> set (drop n_test ?p) = {}"
    by (simp only: distinct_append)
  have rng: "i < length xs" if "i \<in> set ?p" for i using that sp by simp
  show "set a \<inter> set b = {}"
  proof (rule ccontr)
    assume "set a \<inter> set b \<noteq> {}"
    then obtain x where "x \<in> set a" "x \<in> set b" by blast
    then obtain i j where i: "i \<in> set (take n_train (drop n_test ?p))" "x = xs ! i"
      and j: "j \<in> set (take n_test ?p)" "x = xs ! j"
      by (auto simp: a b)
    from i(1) have i': "i \<in> set (drop n_test ?p)" by (rule in_set_takeD)
    then have "i \<in> set ?p" by (rule in_set_dropD)
    moreover from j(1) have "j \<in> set ?p" by (rule in_set_takeD)
    ultimately have "i < length xs" "j < length xs" using rng by simp_all
    with assms(2) i(2) j(2) have "i = j" by (simp add: nth_eq_iff_index_eq)
    with i' j(1) disj show False by blast
  qed
  show "set a \<union> set b \<subseteq> set xs"
  proof
    fix x
    assume "x \<in> set a \<union> set b"
    then obtain i where "i \<in> set ?p" "x = xs ! i"
      by (auto simp: a b dest: in_set_takeD in_set_dropD)
    with rng show "x \<in> set xs" by simp
  qed
qed

lemma compute_split_parts:
  assumes "compute_split ceil_mul permutation py_float fs root_dir validation_size random_state = Inr (a, b, c, d)"
  obtains listing labels where
    "os_listdir fs (os_path_join root_dir ''stage_2_train'') = Inr listing"
    "train_test_split ceil_mul permutation (remove_corrupted corrupted_files listing) labels
       validation_size random_state = Inr (a, b, c, d)"
  using assms unfolding compute_split_def by (auto split: sum.splits)

text \<open>
  C3, as amended: for every root directory, validation fraction and seed, whenever the
  split builder computes the split (\<^verbatim>\<open>override\<close> is true or one of the four artifacts is
  missing) and returns it, the train and validation file names are disjoint and no
  denylisted name is among them, even if the file is listed on disk.
\<close>

theorem rebuilt_split_disjoint:
  assumes "valid_permutation permutation" and "listings_distinct fs"
    and "override \<or> \<not> list_all (os_path_isfile fs) (artifact_paths root_dir)"
    and "rsna_train_valid_split ceil_mul permutation py_float fs root_dir validation_size random_state override =
          (Inr r, fs1, evs)"
  shows "\<exists>train_filenames train_labels validation_filenames validation_labels.
     r = (StrList train_filenames, Array2 train_labels,
          StrList validation_filenames, Array2 validation_labels) \<and>
     set train_filenames \<inter> set validation_filenames = {} \<and>
     set corrupted_files \<inter> (set train_filenames \<union> set validation_filenames) = {}"
proof -
  from assms(4) have run: "fst (rsna_train_valid_split ceil_mul permutation py_float fs root_dir validation_size
      random_state override) = Inr r" by simp
  from run [unfolded rebuild_result [OF assms(3)]] obtain a b c d where
    cs: "compute_split ceil_mul permutation py_float fs root_dir validation_size random_state = Inr (a, b, c, d)"
    and r: "r = (StrList a, Array2 c, StrList b, Array2 d)"
    by (auto split: sum.splits)
  from cs obtain listing labels where
    ls: "os_listdir fs (os_path_join root_dir ''stage_2_train'') = Inr listing"
    and tts: "train_test_split ceil_mul permutation (remove_corrupted corrupted_files listing) labels
       validation_size random_state = Inr (a, b, c, d)"
    by (rule compute_split_parts)
  from ls assms(2) have "distinct listing"
    by (auto simp: os_listdir_def listings_distinct_def split: option.splits node.splits)
  from remove_corrupted_set [OF this, of corrupted_files]
  have dn: "distinct (remove_corrupted corrupted_files listing)"
    and sn: "set (remove_corrupted corrupted_files listing) = set listing - set corrupted_files"
    by simp_all
  from train_test_split_disjoint [OF assms(1) dn tts] sn
  have "set a \<inter> set b = {}" and "set corrupted_files \<inter> (set a \<union> set b) = {}"
    by auto
  with r show ?thesis by blast
qed

text \<open>
  C3 as stated fails on the path that loads the persisted artifacts: they are returned as
  stored, here with the denylisted name in both the train and the validation list.
\<close>

theorem stale_artifacts_returned:
  "fst (rsna_train_valid_split example_ceil_mul example_permutation example_py_float example_stale_fs ''data'' (1 / 20) 42
          False) =
     Inr (StrList [''ID_6431af929.dcm'', ''ID_a.dcm''],
          Array2 [[Fin 0, Fin 0, Fin 0, Fin 0, Fin 0, Fin 0], [Fin 0, Fin 0, Fin 0, Fin 0, Fin 0, Fin 0]],
          StrList [''ID_6431af929.dcm''],
          Array2 [[Fin 0, Fin 0, Fin 0, Fin 0, Fin 0, Fin 0]])"
  by (simp add: rsna_train_valid_split_def Let_def example_joins os_path_isfile_def example_stale_fs_def
      load_split_def pickle_load_def open_read_def)


lemma example_permutation_valid: "valid_permutation example_permutation"
  by (simp add: valid_permutation_def example_permutation_def)

lemma example_listings_distinct: "listings_distinct example_split_fs"
  by (auto simp: listings_distinct_def example_split_fs_def split: if_splits)

lemma example_perm_43: "example_permutation 43 (Suc (Suc (Suc 0))) = [1, 2, 0]"
  by (simp add: example_permutation_def)

lemma example_ceil_3: "example_ceil_mul (1 / 3) (Suc (Suc (Suc 0))) = 1"
  by (simp add: example_ceil_mul_def)

lemma example_compute:
  "compute_split example_ceil_mul example_permutation example_py_float example_split_fs ''data'' (1 / 3) 43 =
     Inr ([''ID_c.dcm'', ''ID_a.dcm''], [''ID_b.dcm''],
          [[Fin 0, Fin 0, Fin 0, Fin 0, Fin 0, Fin 1], [Fin 0, Fin 0, Fin 0, Fin 0, Fin 0, Fin 1]],
          [[Fin 0, Fin 0, Fin 0, Fin 0, Fin 0, Fin 1]])"
proof -
  from example_dict obtain d where
    d: "read_labels_dict example_py_float (tl example_rows) Map.empty = Inr d"
    and bl: "build_labels d [''ID_a.dcm'', ''ID_b.dcm'', ''ID_c.dcm''] =
         Inr [[Fin 0, Fin 0, Fin 0, Fin 0, Fin 0, Fin 1],
              [Fin 0, Fin 0, Fin 0, Fin 0, Fin 0, Fin 1],
              [Fin 0, Fin 0, Fin 0, Fin 0, Fin 0, Fin 1]]"
    by blast
  have "\<lceil>1 / 3 * 3 :: rat\<rceil> = 1" by simp
  then show ?thesis
    by (simp add: compute_split_def example_joins example_listing example_csv example_names d bl
        train_test_split_def validate_shuffle_split_def Let_def example_perm_43 example_ceil_3)
qed

lemma example_parents:
  "parent_dir ''data/train_file_split'' = ''data''"
  "parent_dir ''data/train_label_split'' = ''data''"
  "parent_dir ''data/validation_file_split'' = ''data''"
  "parent_dir ''data/validation_label_split'' = ''data''"
  by (simp_all add: parent_dir_def os_path_dirname_def Let_def)

lemma example_open_all:
  "\<exists>fs1 evs. open_all example_split_fs
      [''data/train_file_split'', ''data/train_label_split'', ''data/validation_file_split'',
       ''data/validation_label_split''] = (Inr (), fs1, evs)"
  by (simp add: open_write_def example_parents example_split_fs_def os_path_basename_def)

lemma example_run:
  "\<exists>fs1 evs. rsna_train_valid_split example_ceil_mul example_permutation example_py_float example_split_fs ''data''
      (1 / 3) 43 True =
     (Inr (StrList [''ID_c.dcm'', ''ID_a.dcm''],
           Array2 [[Fin 0, Fin 0, Fin 0, Fin 0, Fin 0, Fin 1], [Fin 0, Fin 0, Fin 0, Fin 0, Fin 0, Fin 1]],
           StrList [''ID_b.dcm''],
           Array2 [[Fin 0, Fin 0, Fin 0, Fin 0, Fin 0, Fin 1]]), fs1, evs)"
proof -
  from example_open_all obtain fs1 evs where
    "open_all example_split_fs
      [''data/train_file_split'', ''data/train_label_split'', ''data/validation_file_split'',
       ''data/validation_label_split''] = (Inr (), fs1, evs)" by blast
  then show ?thesis
    by (simp add: rsna_train_valid_split_def Let_def example_joins example_compute)
qed

theorem rebuilt_split_disjoint_witness:
  "\<exists>fs1 evs. rsna_train_valid_split example_ceil_mul example_permutation example_py_float example_split_fs ''data''
      (1 / 3) 43 True =
     (Inr (StrList [''ID_c.dcm'', ''ID_a.dcm''],
           Array2 [[Fin 0, Fin 0, Fin 0, Fin 0, Fin 0, Fin 1], [Fin 0, Fin 0, Fin 0, Fin 0, Fin 0, Fin 1]],
           StrList [''ID_b.dcm''],
           Array2 [[Fin 0, Fin 0, Fin 0, Fin 0, Fin 0, Fin 1]]), fs1, evs) \<and>
     set [''ID_c.dcm'', ''ID_a.dcm''] \<inter> set [''ID_b.dcm''] = {} \<and>
     set corrupted_files \<inter> (set [''ID_c.dcm'', ''ID_a.dcm''] \<union> set [''ID_b.dcm'']) = {}"
proof -
  from example_run obtain fs1 evs where
    run: "rsna_train_valid_split example_ceil_mul example_permutation example_py_float example_split_fs ''data''
      (1 / 3) 43 True =
     (Inr (StrList [''ID_c.dcm'', ''ID_a.dcm''],
           Array2 [[Fin 0, Fin 0, Fin 0, Fin 0, Fin 0, Fin 1], [Fin 0, Fin 0, Fin 0, Fin 0, Fin 0, Fin 1]],
           StrList [''ID_b.dcm''],
           Array2 [[Fin 0, Fin 0, Fin 0, Fin 0, Fin 0, Fin 1]]), fs1, evs)" by blast
  have rebuild: "True \<or> \<not> list_all (os_path_isfile example_split_fs) (artifact_paths ''data'')"
    by simp
  from rebuilt_split_disjoint [OF example_permutation_valid example_listings_distinct rebuild run]
  have "set [''ID_c.dcm'', ''ID_a.dcm''] \<inter> set [''ID_b.dcm''] = {} \<and>
     set corrupted_files \<inter> (set [''ID_c.dcm'', ''ID_a.dcm''] \<union> set [''ID_b.dcm'']) = {}"
    by simp
  with run show ?thesis by blast
qed

lemma open_write_iff: "(\<exists>fs1. open_write fs p = Inr fs1) \<longleftrightarrow> writable fs p"
  by (auto simp: open_write_def writable_def split: option.splits node.splits)

lemma open_write_frame:
  "open_write fs p = Inr fs1 \<Longrightarrow> q \<noteq> p \<Longrightarrow> q \<noteq> parent_dir p \<Longrightarrow> fs1 q = fs q"
  by (auto simp: open_write_def split: option.splits node.splits)

lemma open_write_writable:
  assumes "open_write fs q = Inr fs1" and "writable fs p"
  shows "writable fs1 p"
proof -
  from assms(1) obtain names where
    par: "fs (parent_dir q) = Some (Dir names)"
    and notdir: "\<forall>ns. fs q \<noteq> Some (Dir ns)"
    and fs1: "fs1 = fs(parent_dir q \<mapsto>
                 Dir (if os_path_basename q \<in> set names then names else names @ [os_path_basename q]),
               q \<mapsto> File Empty)"
    by (auto simp: open_write_def split: option.splits node.splits)
  from assms(2) have p1: "\<forall>ns. fs p \<noteq> Some (Dir ns)"
    and p2: "\<exists>ns. fs (parent_dir p) = Some (Dir ns)"
    by (auto simp: writable_def split: option.splits node.splits)
  from p1 par have a: "p \<noteq> parent_dir q" by auto
  from p2 notdir have b: "parent_dir p \<noteq> q" by auto
  show ?thesis
    using a b p1 p2 unfolding fs1 writable_def
    by (auto split: option.splits node.splits)
qed

lemma open_write_self_writable:
  assumes "open_write fs p = Inr fs1"
  shows "writable fs1 p"
proof -
  from assms have "writable fs p" using open_write_iff by blast
  with assms show ?thesis by (rule open_write_writable)
qed

lemma open_all_frame:
  "open_all fs ps = (res, fs1, evs) \<Longrightarrow> q \<notin> set ps \<Longrightarrow> q \<notin> parent_dir ` set ps \<Longrightarrow> fs1 q = fs q"
proof (induction ps arbitrary: fs res fs1 evs)
  case Nil
  then show ?case by simp
next
  case (Cons p ps)
  show ?case
  proof (cases "open_write fs p")
    case (Inl e)
    with Cons.prems show ?thesis by simp
  next
    case (Inr fs')
    with Cons.prems obtain evs' where rest: "open_all fs' ps = (res, fs1, evs')"
      by (auto split: prod.splits)
    from Cons.prems have "q \<notin> set ps" "q \<notin> parent_dir ` set ps" "q \<noteq> p" "q \<noteq> parent_dir p"
      by auto
    with Cons.IH [OF rest] open_write_frame [OF Inr] show ?thesis by simp
  qed
qed

lemma open_all_keeps_writable:
  "open_all fs ps = (Inr u, fs1, evs) \<Longrightarrow> writable fs p \<Longrightarrow> writable fs1 p"
proof (induction ps arbitrary: fs evs)
  case Nil
  then show ?case by simp
next
  case (Cons q ps)
  from Cons.prems(1) obtain fs' evs' where ow: "open_write fs q = Inr fs'"
    and rest: "open_all fs' ps = (Inr u, fs1, evs')"
    by (auto split: sum.splits prod.splits)
  from Cons.IH [OF rest open_write_writable [OF ow Cons.prems(2)]] show ?case .
qed

lemma open_all_makes_writable:
  "open_all fs ps = (Inr u, fs1, evs) \<Longrightarrow> p \<in> set ps \<Longrightarrow> writable fs1 p"
proof (induction ps arbitrary: fs evs)
  case Nil
  then show ?case by simp
next
  case (Cons q ps)
  from Cons.prems(1) obtain fs' evs' where ow: "open_write fs q = Inr fs'"
    and rest: "open_all fs' ps = (Inr u, fs1, evs')"
    by (auto split: sum.splits prod.splits)
  show ?case
  proof (cases "p = q")
    case True
    with open_all_keeps_writable [OF rest open_write_self_writable [OF ow]] show ?thesis by simp
  next
    case False
    with Cons.prems(2) have "p \<in> set ps" by simp
    from Cons.IH [OF rest this] show ?thesis .
  qed
qed

lemma pickle_dump_writable:
  assumes "writable fs p" and "writable fs q"
  shows "writable (pickle_dump fs q obj) p"
proof -
  from assms(1) have p1: "\<forall>ns. fs p \<noteq> Some (Dir ns)"
    and p2: "\<exists>ns. fs (parent_dir p) = Some (Dir ns)"
    by (auto simp: writable_def split: option.splits node.splits)
  from assms(2) have "\<forall>ns. fs q \<noteq> Some (Dir ns)"
    by (auto simp: writable_def split: option.splits node.splits)
  with p2 have "parent_dir p \<noteq> q" by auto
  with p1 p2 show ?thesis
    unfolding writable_def pickle_dump_def by (auto split: option.splits node.splits)
qed

lemma open_all_succeeds:
  "(\<And>p. p \<in> set ps \<Longrightarrow> writable fs p) \<Longrightarrow> \<exists>fs1 evs. open_all fs ps = (Inr (), fs1, evs)"
proof (induction ps arbitrary: fs)
  case Nil
  then show ?case by simp
next
  case (Cons q ps)
  from Cons.prems [of q] obtain fs' where ow: "open_write fs q = Inr fs'"
    using open_write_iff by auto
  have "writable fs' p" if "p \<in> set ps" for p
    using open_write_writable [OF ow] Cons.prems [of p] that by simp
  from Cons.IH [OF this] obtain fs1 evs where "open_all fs' ps = (Inr (), fs1, evs)" by blast
  with ow show ?case by simp
qed


lemma dirname_of_join:
  assumes "name \<noteq> []" and "CHR ''/'' \<notin> set name"
  shows "length (parent_dir (os_path_join root_dir name)) \<le>
           length (if root_dir = [] \<or> last root_dir = CHR ''/'' then root_dir else root_dir @ ''/'') \<or>
         (root_dir = [] \<and> parent_dir (os_path_join root_dir name) = ''.'')"
proof -
  let ?pre = "if root_dir = [] \<or> last root_dir = CHR ''/'' then root_dir else root_dir @ ''/''"
  from assms have hd: "hd name \<noteq> CHR ''/''" by (cases name) auto
  have j: "os_path_join root_dir name = ?pre @ name"
    using assms(1) hd by (simp add: os_path_join_def)
  have drop_name: "dropWhile (\<lambda>c. c \<noteq> CHR ''/'') (rev (?pre @ name)) =
      dropWhile (\<lambda>c. c \<noteq> CHR ''/'') (rev ?pre)"
  proof -
    have "dropWhile (\<lambda>c. c \<noteq> CHR ''/'') (rev name @ rev ?pre) =
        dropWhile (\<lambda>c. c \<noteq> CHR ''/'') (rev ?pre)"
      by (rule dropWhile_append2) (use assms(2) in auto)
    then show ?thesis by (simp only: rev_append)
  qed
  have len_head: "length (rev (dropWhile (\<lambda>c. c \<noteq> CHR ''/'') (rev ?pre))) \<le> length ?pre"
    using length_dropWhile_le [of "\<lambda>c. c \<noteq> CHR ''/''" "rev ?pre"] by simp
  have len_dir: "length (os_path_dirname (?pre @ name)) \<le> length ?pre"
  proof -
    let ?head = "rev (dropWhile (\<lambda>c. c \<noteq> CHR ''/'') (rev ?pre))"
    have "length (rev (dropWhile (\<lambda>c. c = CHR ''/'') (rev ?head))) \<le> length ?head"
      using length_dropWhile_le [of "\<lambda>c. c = CHR ''/''" "rev ?head"] by simp
    with len_head show ?thesis
      unfolding os_path_dirname_def Let_def drop_name by (auto simp del: rev_rev_ident)
  qed
  show ?thesis
  proof (cases "root_dir = []")
    case True
    then have "os_path_dirname (os_path_join root_dir name) = []"
      using len_dir j by simp
    with True show ?thesis by (simp add: parent_dir_def)
  next
    case False
    then have "1 \<le> length ?pre" by (cases root_dir) auto
    with len_dir j show ?thesis by (auto simp: parent_dir_def)
  qed
qed

lemma parent_not_source:
  assumes "name \<noteq> []" and "CHR ''/'' \<notin> set name"
    and "other \<noteq> []" and "hd other \<noteq> CHR ''/''" and "other \<noteq> ''.''"
  shows "parent_dir (os_path_join root_dir name) \<noteq> os_path_join root_dir other"
proof
  let ?pre = "if root_dir = [] \<or> last root_dir = CHR ''/'' then root_dir else root_dir @ ''/''"
  assume eq: "parent_dir (os_path_join root_dir name) = os_path_join root_dir other"
  have j: "os_path_join root_dir other = ?pre @ other"
    using assms(3,4) by (simp add: os_path_join_def)
  from dirname_of_join [OF assms(1,2), of root_dir] show False
  proof
    assume "length (parent_dir (os_path_join root_dir name)) \<le> length ?pre"
    with eq j assms(3) show False by (simp split: if_splits)
  next
    assume "root_dir = [] \<and> parent_dir (os_path_join root_dir name) = ''.''"
    then have r: "root_dir = []" and d: "parent_dir (os_path_join root_dir name) = ''.''"
      by (rule conjunct1, rule conjunct2)
    from j r have "os_path_join root_dir other = other" by simp
    with eq d assms(5) show False by simp
  qed
qed

lemma sources_untouched:
  assumes "q = os_path_join root_dir ''stage_2_train'' \<or> q = os_path_join root_dir ''stage_2_train.csv''"
  shows "q \<notin> set [os_path_join root_dir ''train_file_split'', os_path_join root_dir ''train_label_split'',
                  os_path_join root_dir ''validation_file_split'',
                  os_path_join root_dir ''validation_label_split'']"
    and "q \<notin> parent_dir ` set [os_path_join root_dir ''train_file_split'',
                  os_path_join root_dir ''train_label_split'',
                  os_path_join root_dir ''validation_file_split'',
                  os_path_join root_dir ''validation_label_split'']"
proof -
  show "q \<notin> set [os_path_join root_dir ''train_file_split'', os_path_join root_dir ''train_label_split'',
                  os_path_join root_dir ''validation_file_split'',
                  os_path_join root_dir ''validation_label_split'']"
    using assms by (auto simp: os_path_join_inject)
  have "parent_dir (os_path_join root_dir ''train_file_split'') \<noteq> q"
    "parent_dir (os_path_join root_dir ''train_label_split'') \<noteq> q"
    "parent_dir (os_path_join root_dir ''validation_file_split'') \<noteq> q"
    "parent_dir (os_path_join root_dir ''validation_label_split'') \<noteq> q"
    using assms by (auto simp: parent_not_source)
  then show "q \<notin> parent_dir ` set [os_path_join root_dir ''train_file_split'',
                  os_path_join root_dir ''train_label_split'',
                  os_path_join root_dir ''validation_file_split'',
                  os_path_join root_dir ''validation_label_split'']"
    by auto
qed

lemma compute_split_cong:
  assumes "os_listdir fs2 (os_path_join root_dir ''stage_2_train'') =
           os_listdir fs (os_path_join root_dir ''stage_2_train'')"
    and "open_csv fs2 (os_path_join root_dir ''stage_2_train.csv'') =
         open_csv fs (os_path_join root_dir ''stage_2_train.csv'')"
  shows "compute_split ceil_mul permutation py_float fs2 root_dir validation_size random_state =
         compute_split ceil_mul permutation py_float fs root_dir validation_size random_state"
  unfolding compute_split_def assms by (rule refl)


lemma rebuild_parts:
  assumes "rsna_train_valid_split ceil_mul permutation py_float fs root_dir validation_size random_state True =
      (Inr r, fs1, evs)"
  obtains a b c d u fso evo where
    "compute_split ceil_mul permutation py_float fs root_dir validation_size random_state = Inr (a, b, c, d)"
    "open_all fs [os_path_join root_dir ''train_file_split'', os_path_join root_dir ''train_label_split'',
                  os_path_join root_dir ''validation_file_split'',
                  os_path_join root_dir ''validation_label_split''] = (Inr u, fso, evo)"
    "r = (StrList a, Array2 c, StrList b, Array2 d)"
    "fs1 = pickle_dump (pickle_dump (pickle_dump (pickle_dump fso
             (os_path_join root_dir ''train_file_split'') (StrList a))
             (os_path_join root_dir ''train_label_split'') (Array2 c))
             (os_path_join root_dir ''validation_file_split'') (StrList b))
             (os_path_join root_dir ''validation_label_split'') (Array2 d)"
  using assms unfolding rsna_train_valid_split_def Let_def
  by (auto split: sum.splits prod.splits)

lemma train_test_split_filenames:
  assumes "train_test_split ceil_mul permutation xs ys test_size random_state = Inr (a, b, c, d)"
    and "train_test_split ceil_mul permutation xs ys2 test_size random_state = Inr (a2, b2, c2, d2)"
  shows "a2 = a" and "b2 = b"
  using assms by (auto simp: train_test_split_def Let_def split: if_splits sum.splits)

text \<open>
  C4: two runs of the split builder with \<^verbatim>\<open>override\<close> true, the same validation fraction
  and the same seed produce the same split. A second run in the file system the first
  run left behind returns exactly what the first returned; and any run that lists the
  same file names, in whatever file system, returns the same train file names and the
  same validation file names.
\<close>

theorem split_reproducible:
  assumes "rsna_train_valid_split ceil_mul permutation py_float fs root_dir validation_size random_state True =
      (Inr r, fs1, evs)"
  shows "fst (rsna_train_valid_split ceil_mul permutation py_float fs1 root_dir validation_size random_state True) =
           Inr r \<and>
         (\<forall>fs2 train2 train_labels2 validation2 validation_labels2.
            os_listdir fs2 (os_path_join root_dir ''stage_2_train'') =
              os_listdir fs (os_path_join root_dir ''stage_2_train'') \<and>
            fst (rsna_train_valid_split ceil_mul permutation py_float fs2 root_dir validation_size random_state
                   True) = Inr (train2, train_labels2, validation2, validation_labels2) \<longrightarrow>
            train2 = fst r \<and> validation2 = fst (snd (snd r)))"
proof
  let ?ps = "[os_path_join root_dir ''train_file_split'', os_path_join root_dir ''train_label_split'',
              os_path_join root_dir ''validation_file_split'',
              os_path_join root_dir ''validation_label_split'']"
  let ?tp = "os_path_join root_dir ''stage_2_train''"
  let ?lp = "os_path_join root_dir ''stage_2_train.csv''"
  from assms obtain a b c d u fso evo where
    cs: "compute_split ceil_mul permutation py_float fs root_dir validation_size random_state = Inr (a, b, c, d)"
    and oa: "open_all fs ?ps = (Inr u, fso, evo)"
    and r: "r = (StrList a, Array2 c, StrList b, Array2 d)"
    and fs1: "fs1 = pickle_dump (pickle_dump (pickle_dump (pickle_dump fso
             (os_path_join root_dir ''train_file_split'') (StrList a))
             (os_path_join root_dir ''train_label_split'') (Array2 c))
             (os_path_join root_dir ''validation_file_split'') (StrList b))
             (os_path_join root_dir ''validation_label_split'') (Array2 d)"
    by (rule rebuild_parts)
  have untouched: "fs1 q = fs q" if "q = ?tp \<or> q = ?lp" for q
  proof -
    have "fso q = fs q"
      by (rule open_all_frame [OF oa sources_untouched(1) [OF that] sources_untouched(2) [OF that]])
    moreover have "fs1 q = fso q"
      using sources_untouched(1) [OF that] by (simp add: fs1 pickle_dump_def)
    ultimately show ?thesis by simp
  qed
  have same: "compute_split ceil_mul permutation py_float fs1 root_dir validation_size random_state =
      compute_split ceil_mul permutation py_float fs root_dir validation_size random_state"
    by (rule compute_split_cong) (simp_all add: os_listdir_def open_csv_def open_read_def untouched)
  have w0: "writable fso p" if "p \<in> set ?ps" for p
    by (rule open_all_makes_writable [OF oa that])
  have w1: "writable fs1 p" if "p \<in> set ?ps" for p
    unfolding fs1 using that by (intro pickle_dump_writable w0) simp_all
  from open_all_succeeds [of ?ps fs1, OF w1] obtain fs3 evs3 where
    "open_all fs1 ?ps = (Inr (), fs3, evs3)" by blast
  then show "fst (rsna_train_valid_split ceil_mul permutation py_float fs1 root_dir validation_size random_state
      True) = Inr r"
    by (simp add: rebuild_result [of True] same cs r)
  show "\<forall>fs2 train2 train_labels2 validation2 validation_labels2.
            os_listdir fs2 ?tp = os_listdir fs ?tp \<and>
            fst (rsna_train_valid_split ceil_mul permutation py_float fs2 root_dir validation_size random_state
                   True) = Inr (train2, train_labels2, validation2, validation_labels2) \<longrightarrow>
            train2 = fst r \<and> validation2 = fst (snd (snd r))"
  proof (intro allI impI)
    fix fs2 train2 train_labels2 validation2 validation_labels2
    assume h: "os_listdir fs2 ?tp = os_listdir fs ?tp \<and>
            fst (rsna_train_valid_split ceil_mul permutation py_float fs2 root_dir validation_size random_state
                   True) = Inr (train2, train_labels2, validation2, validation_labels2)"
    then have run2: "fst (rsna_train_valid_split ceil_mul permutation py_float fs2 root_dir validation_size
        random_state True) = Inr (train2, train_labels2, validation2, validation_labels2)"
      and ls: "os_listdir fs2 ?tp = os_listdir fs ?tp" by simp_all
    from run2 [unfolded rebuild_result [of True, simplified]] obtain a2 b2 c2 d2 where
      cs2: "compute_split ceil_mul permutation py_float fs2 root_dir validation_size random_state =
          Inr (a2, b2, c2, d2)"
      and r2: "train2 = StrList a2" "validation2 = StrList b2"
      by (auto split: sum.splits)
    from cs obtain listing labels where
      l1: "os_listdir fs ?tp = Inr listing"
      and t1: "train_test_split ceil_mul permutation (remove_corrupted corrupted_files listing) labels
         validation_size random_state = Inr (a, b, c, d)"
      by (rule compute_split_parts)
    from cs2 obtain listing2 labels2 where
      l2: "os_listdir fs2 ?tp = Inr listing2"
      and t2: "train_test_split ceil_mul permutation (remove_corrupted corrupted_files listing2) labels2
         validation_size random_state = Inr (a2, b2, c2, d2)"
      by (rule compute_split_parts)
    from l1 l2 ls have "listing2 = listing" by simp
    with train_test_split_filenames [OF t1] t2 have "a2 = a" "b2 = b" by simp_all
    with r r2 show "train2 = fst r \<and> validation2 = fst (snd (snd r))" by simp
  qed
qed


lemma example_relabelled_compute:
  "compute_split example_ceil_mul example_permutation example_py_float example_relabelled_fs ''data'' (1 / 3) 43 =
     Inr ([''ID_c.dcm'', ''ID_a.dcm''], [''ID_b.dcm''],
          [[Fin 0, Fin 0, Fin 0, Fin 0, Fin 0, Fin 1], [Fin 0, Fin 0, Fin 0, Fin 0, Fin 0, Fin 0]],
          [[Fin 0, Fin 0, Fin 0, Fin 0, Fin 0, Fin 1]])"
proof -
  have ls: "os_listdir example_relabelled_fs ''data/stage_2_train'' =
      Inr [''ID_a.dcm'', ''ID_6431af929.dcm'', ''ID_b.dcm'', ''ID_c.dcm'']"
    by (simp add: os_listdir_def example_relabelled_fs_def example_split_fs_def)
  have csv: "open_csv example_relabelled_fs ''data/stage_2_train.csv'' =
      Inr (example_rows @ [[''ID_a_any'', ''0'']])"
    by (simp add: open_csv_def open_read_def example_relabelled_fs_def)
  have "\<exists>d. read_labels_dict example_py_float (tl (example_rows @ [[''ID_a_any'', ''0'']])) Map.empty =
        Inr d \<and>
      build_labels d [''ID_a.dcm'', ''ID_b.dcm'', ''ID_c.dcm''] =
         Inr [[Fin 0, Fin 0, Fin 0, Fin 0, Fin 0, Fin 0],
              [Fin 0, Fin 0, Fin 0, Fin 0, Fin 0, Fin 1],
              [Fin 0, Fin 0, Fin 0, Fin 0, Fin 0, Fin 1]]"
    by (simp add: example_rows_def RSNA_SUBTYPES_def example_py_float_def build_labels_def
        label_key_def dict_getitem_def)
  then obtain d where
    d: "read_labels_dict example_py_float (tl (example_rows @ [[''ID_a_any'', ''0'']])) Map.empty = Inr d"
    and bl: "build_labels d [''ID_a.dcm'', ''ID_b.dcm'', ''ID_c.dcm''] =
         Inr [[Fin 0, Fin 0, Fin 0, Fin 0, Fin 0, Fin 0],
              [Fin 0, Fin 0, Fin 0, Fin 0, Fin 0, Fin 1],
              [Fin 0, Fin 0, Fin 0, Fin 0, Fin 0, Fin 1]]"
    by blast
  have "\<lceil>1 / 3 * 3 :: rat\<rceil> = 1" by simp
  then show ?thesis
    by (simp add: compute_split_def example_joins ls csv example_names d bl
        train_test_split_def validate_shuffle_split_def Let_def example_perm_43 example_ceil_3)
qed

lemma example_relabelled_run:
  "fst (rsna_train_valid_split example_ceil_mul example_permutation example_py_float example_relabelled_fs ''data''
      (1 / 3) 43 True) =
     Inr (StrList [''ID_c.dcm'', ''ID_a.dcm''],
          Array2 [[Fin 0, Fin 0, Fin 0, Fin 0, Fin 0, Fin 1], [Fin 0, Fin 0, Fin 0, Fin 0, Fin 0, Fin 0]],
          StrList [''ID_b.dcm''],
          Array2 [[Fin 0, Fin 0, Fin 0, Fin 0, Fin 0, Fin 1]])"
proof -
  have "\<exists>fs1 evs. open_all example_relabelled_fs
      [''data/train_file_split'', ''data/train_label_split'', ''data/validation_file_split'',
       ''data/validation_label_split''] = (Inr (), fs1, evs)"
    by (simp add: open_write_def example_parents example_relabelled_fs_def example_split_fs_def
        os_path_basename_def)
  then obtain fs1 evs where "open_all example_relabelled_fs
      [''data/train_file_split'', ''data/train_label_split'', ''data/validation_file_split'',
       ''data/validation_label_split''] = (Inr (), fs1, evs)" by blast
  then show ?thesis
    by (simp add: rebuild_result [of True] example_joins example_relabelled_compute)
qed

theorem split_reproducible_witness:
  "\<exists>fs1 evs.
     rsna_train_valid_split example_ceil_mul example_permutation example_py_float example_split_fs ''data'' (1 / 3) 43 True =
       (Inr (StrList [''ID_c.dcm'', ''ID_a.dcm''],
             Array2 [[Fin 0, Fin 0, Fin 0, Fin 0, Fin 0, Fin 1], [Fin 0, Fin 0, Fin 0, Fin 0, Fin 0, Fin 1]],
             StrList [''ID_b.dcm''],
             Array2 [[Fin 0, Fin 0, Fin 0, Fin 0, Fin 0, Fin 1]]), fs1, evs) \<and>
     fst (rsna_train_valid_split example_ceil_mul example_permutation example_py_float fs1 ''data'' (1 / 3) 43 True) =
       Inr (StrList [''ID_c.dcm'', ''ID_a.dcm''],
            Array2 [[Fin 0, Fin 0, Fin 0, Fin 0, Fin 0, Fin 1], [Fin 0, Fin 0, Fin 0, Fin 0, Fin 0, Fin 1]],
            StrList [''ID_b.dcm''],
            Array2 [[Fin 0, Fin 0, Fin 0, Fin 0, Fin 0, Fin 1]]) \<and>
     os_listdir example_relabelled_fs (os_path_join ''data'' ''stage_2_train'') =
       os_listdir example_split_fs (os_path_join ''data'' ''stage_2_train'') \<and>
     fst (rsna_train_valid_split example_ceil_mul example_permutation example_py_float example_relabelled_fs ''data''
            (1 / 3) 43 True) =
       Inr (StrList [''ID_c.dcm'', ''ID_a.dcm''],
            Array2 [[Fin 0, Fin 0, Fin 0, Fin 0, Fin 0, Fin 1], [Fin 0, Fin 0, Fin 0, Fin 0, Fin 0, Fin 0]],
            StrList [''ID_b.dcm''],
            Array2 [[Fin 0, Fin 0, Fin 0, Fin 0, Fin 0, Fin 1]])"
proof -
  from example_run obtain fs1 evs where
    run: "rsna_train_valid_split example_ceil_mul example_permutation example_py_float example_split_fs ''data''
      (1 / 3) 43 True =
     (Inr (StrList [''ID_c.dcm'', ''ID_a.dcm''],
           Array2 [[Fin 0, Fin 0, Fin 0, Fin 0, Fin 0, Fin 1], [Fin 0, Fin 0, Fin 0, Fin 0, Fin 0, Fin 1]],
           StrList [''ID_b.dcm''],
           Array2 [[Fin 0, Fin 0, Fin 0, Fin 0, Fin 0, Fin 1]]), fs1, evs)" by blast
  have ls: "os_listdir example_relabelled_fs (os_path_join ''data'' ''stage_2_train'') =
       os_listdir example_split_fs (os_path_join ''data'' ''stage_2_train'')"
    by (simp add: example_joins os_listdir_def example_relabelled_fs_def)
  note both = split_reproducible [OF run]
  from both have again: "fst (rsna_train_valid_split example_ceil_mul example_permutation example_py_float fs1 ''data''
      (1 / 3) 43 True) =
       Inr (StrList [''ID_c.dcm'', ''ID_a.dcm''],
            Array2 [[Fin 0, Fin 0, Fin 0, Fin 0, Fin 0, Fin 1], [Fin 0, Fin 0, Fin 0, Fin 0, Fin 0, Fin 1]],
            StrList [''ID_b.dcm''],
            Array2 [[Fin 0, Fin 0, Fin 0, Fin 0, Fin 0, Fin 1]])"
    by (rule conjunct1)
  from both [THEN conjunct2, rule_format, of example_relabelled_fs] ls example_relabelled_run
  have "StrList [''ID_c.dcm'', ''ID_a.dcm''] = StrList [''ID_c.dcm'', ''ID_a.dcm''] \<and>
      StrList [''ID_b.dcm''] = StrList [''ID_b.dcm'']"
    by simp
  with run again ls example_relabelled_run show ?thesis by blast
qed

end
